theory Spec2Isabelle
  imports Main "HOL-Library.Word"
begin

unbundle bit_operations_syntax

section \<open>Machine types and the constants of the kernel interface\<close>

text \<open>
  The module is a thin layer over the kernel's video device interface: every function of
  \<^verbatim>\<open>v4l2-utils.c\<close> fills a request structure, issues one system call (or a loop of
  them) and, where the call fails, reports the failure with \<^verbatim>\<open>error(EXIT_FAILURE, ...)\<close>,
  which prints a message and terminates the process.

  \<^verbatim>\<open>uint32_t\<close>, \<^verbatim>\<open>__u32\<close> and the enumerations are 32-bit words, \<^verbatim>\<open>int\<close> results of
  system calls and file descriptors are integers, pointers are 64-bit words.
\<close>

type_synonym u32 = "32 word"
type_synonym addr = "64 word"

text \<open>\<^verbatim>\<open>MAP_FAILED\<close> is \<^verbatim>\<open>(void *) -1\<close>; \<^verbatim>\<open>INT_MAX\<close> is the largest \<^verbatim>\<open>int\<close>.\<close>

definition MAP_FAILED :: addr where
  "MAP_FAILED = - 1"

definition INT_MAX :: nat where
  "INT_MAX = 2147483647"

text \<open>
  The enumerators below come from \<^verbatim>\<open>linux/videodev2.h\<close>, which the module includes and
  which is not part of the repository; the values are those of the kernel's userspace
  interface. \<^verbatim>\<open>enum v4l2_field\<close> starts at 0, \<^verbatim>\<open>enum v4l2_buf_type\<close> and
  \<^verbatim>\<open>enum v4l2_memory\<close> start at 1.
\<close>

definition V4L2_FIELD_ANY :: u32 where "V4L2_FIELD_ANY = 0"
definition V4L2_FIELD_NONE :: u32 where "V4L2_FIELD_NONE = 1"
definition V4L2_FIELD_TOP :: u32 where "V4L2_FIELD_TOP = 2"
definition V4L2_FIELD_BOTTOM :: u32 where "V4L2_FIELD_BOTTOM = 3"
definition V4L2_FIELD_INTERLACED :: u32 where "V4L2_FIELD_INTERLACED = 4"
definition V4L2_FIELD_SEQ_TB :: u32 where "V4L2_FIELD_SEQ_TB = 5"
definition V4L2_FIELD_SEQ_BT :: u32 where "V4L2_FIELD_SEQ_BT = 6"
definition V4L2_FIELD_ALTERNATE :: u32 where "V4L2_FIELD_ALTERNATE = 7"
definition V4L2_FIELD_INTERLACED_TB :: u32 where "V4L2_FIELD_INTERLACED_TB = 8"
definition V4L2_FIELD_INTERLACED_BT :: u32 where "V4L2_FIELD_INTERLACED_BT = 9"

definition V4L2_BUF_TYPE_VIDEO_CAPTURE :: u32 where "V4L2_BUF_TYPE_VIDEO_CAPTURE = 1"
definition V4L2_BUF_TYPE_VIDEO_OUTPUT :: u32 where "V4L2_BUF_TYPE_VIDEO_OUTPUT = 2"
definition V4L2_BUF_TYPE_VIDEO_OVERLAY :: u32 where "V4L2_BUF_TYPE_VIDEO_OVERLAY = 3"
definition V4L2_BUF_TYPE_VBI_CAPTURE :: u32 where "V4L2_BUF_TYPE_VBI_CAPTURE = 4"
definition V4L2_BUF_TYPE_VBI_OUTPUT :: u32 where "V4L2_BUF_TYPE_VBI_OUTPUT = 5"
definition V4L2_BUF_TYPE_SLICED_VBI_CAPTURE :: u32 where "V4L2_BUF_TYPE_SLICED_VBI_CAPTURE = 6"
definition V4L2_BUF_TYPE_SLICED_VBI_OUTPUT :: u32 where "V4L2_BUF_TYPE_SLICED_VBI_OUTPUT = 7"
definition V4L2_BUF_TYPE_VIDEO_OUTPUT_OVERLAY :: u32 where "V4L2_BUF_TYPE_VIDEO_OUTPUT_OVERLAY = 8"
definition V4L2_BUF_TYPE_VIDEO_CAPTURE_MPLANE :: u32 where "V4L2_BUF_TYPE_VIDEO_CAPTURE_MPLANE = 9"
definition V4L2_BUF_TYPE_VIDEO_OUTPUT_MPLANE :: u32 where "V4L2_BUF_TYPE_VIDEO_OUTPUT_MPLANE = 10"
definition V4L2_BUF_TYPE_SDR_CAPTURE :: u32 where "V4L2_BUF_TYPE_SDR_CAPTURE = 11"

definition V4L2_MEMORY_MMAP :: u32 where "V4L2_MEMORY_MMAP = 1"
definition V4L2_MEMORY_USERPTR :: u32 where "V4L2_MEMORY_USERPTR = 2"
definition V4L2_MEMORY_OVERLAY :: u32 where "V4L2_MEMORY_OVERLAY = 3"
definition V4L2_MEMORY_DMABUF :: u32 where "V4L2_MEMORY_DMABUF = 4"

definition V4L2_CAP_TIMEPERFRAME :: u32 where "V4L2_CAP_TIMEPERFRAME = 0x1000"

text \<open>\<^verbatim>\<open>S_ISCHR(m)\<close> of \<^verbatim>\<open>sys/stat.h\<close>: \<^verbatim>\<open>(m & S_IFMT) == S_IFCHR\<close>, octal 0170000 and 0020000.\<close>

definition S_ISCHR :: "u32 \<Rightarrow> bool" where
  "S_ISCHR m \<longleftrightarrow> m AND 0xF000 = 0x2000"

section \<open>The name tables\<close>

text \<open>
  An array written with designated initialisers \<^verbatim>\<open>[E] = "name"\<close> has one element more than
  its largest designator, and every element that no initialiser names is a null pointer.
  An element is \<open>Some\<close> name, or \<open>None\<close> for the null pointer.
\<close>

definition designated :: "(u32 \<times> string) list \<Rightarrow> string option list" where
  "designated inits =
     map (map_of (map (\<lambda>(e, s). (unat e, s)) inits))
       [0 ..< Suc (fold max (map (\<lambda>(e, s). unat e) inits) 0)]"

definition v4l2_field_names :: "string option list" where
  "v4l2_field_names = designated
     [(V4L2_FIELD_ANY, ''any''),
      (V4L2_FIELD_NONE, ''none''),
      (V4L2_FIELD_TOP, ''top''),
      (V4L2_FIELD_BOTTOM, ''bottom''),
      (V4L2_FIELD_INTERLACED, ''interlaced''),
      (V4L2_FIELD_SEQ_TB, ''seq-tb''),
      (V4L2_FIELD_SEQ_BT, ''seq-bt''),
      (V4L2_FIELD_ALTERNATE, ''alternate''),
      (V4L2_FIELD_INTERLACED_TB, ''interlaced-tb''),
      (V4L2_FIELD_INTERLACED_BT, ''interlaced-bt'')]"

definition v4l2_type_names :: "string option list" where
  "v4l2_type_names = designated
     [(V4L2_BUF_TYPE_VIDEO_CAPTURE, ''vid-cap''),
      (V4L2_BUF_TYPE_VIDEO_OVERLAY, ''vid-overlay''),
      (V4L2_BUF_TYPE_VIDEO_OUTPUT, ''vid-out''),
      (V4L2_BUF_TYPE_VBI_CAPTURE, ''vbi-cap''),
      (V4L2_BUF_TYPE_VBI_OUTPUT, ''vbi-out''),
      (V4L2_BUF_TYPE_SLICED_VBI_CAPTURE, ''sliced-vbi-cap''),
      (V4L2_BUF_TYPE_SLICED_VBI_OUTPUT, ''sliced-vbi-out''),
      (V4L2_BUF_TYPE_VIDEO_OUTPUT_OVERLAY, ''vid-out-overlay''),
      (V4L2_BUF_TYPE_VIDEO_CAPTURE_MPLANE, ''vid-cap-mplane''),
      (V4L2_BUF_TYPE_VIDEO_OUTPUT_MPLANE, ''vid-out-mplane''),
      (V4L2_BUF_TYPE_SDR_CAPTURE, ''sdr-cap'')]"

definition v4l2_memory_names :: "string option list" where
  "v4l2_memory_names = designated
     [(V4L2_MEMORY_MMAP, ''mmap''),
      (V4L2_MEMORY_USERPTR, ''userptr''),
      (V4L2_MEMORY_OVERLAY, ''overlay''),
      (V4L2_MEMORY_DMABUF, ''dmabuf'')]"

text \<open>
  \<^verbatim>\<open>#define ARRAY_SIZE(arr) (sizeof(arr) / sizeof((arr)[0]))\<close> and
  \<^verbatim>\<open>#define v4l2_name(a, arr) (((unsigned)(a)) < ARRAY_SIZE(arr) ? arr[a] : "unknown")\<close>.
  The argument is read as an unsigned 32-bit value, so a negative enumeration value is a
  large one.
\<close>

definition ARRAY_SIZE :: "'a list \<Rightarrow> nat" where
  "ARRAY_SIZE arr = length arr"

definition v4l2_name :: "u32 \<Rightarrow> string option list \<Rightarrow> string option" where
  "v4l2_name a arr = (if unat a < ARRAY_SIZE arr then arr ! unat a else Some ''unknown'')"

definition v4l2_field_name :: "u32 \<Rightarrow> string option" where
  "v4l2_field_name field = v4l2_name field v4l2_field_names"

definition v4l2_type_name :: "u32 \<Rightarrow> string option" where
  "v4l2_type_name type = v4l2_name type v4l2_type_names"

definition v4l2_memory_name :: "u32 \<Rightarrow> string option" where
  "v4l2_memory_name memory = v4l2_name memory v4l2_memory_names"

section \<open>Request structures\<close>

text \<open>
  The structures of \<^verbatim>\<open>linux/videodev2.h\<close> that the module passes to the kernel, with the
  fields the module writes or reads. A structure initialiser that names some fields sets
  every other field to zero. Fields that several structures have (\<^verbatim>\<open>type\<close>, \<^verbatim>\<open>index\<close>,
  \<^verbatim>\<open>count\<close>, \<^verbatim>\<open>memory\<close>, \<^verbatim>\<open>flags\<close>, \<^verbatim>\<open>length\<close>, \<^verbatim>\<open>field\<close>) carry the structure's name as
  a prefix; \<open>m_offset\<close> is \<^verbatim>\<open>m.offset\<close>, and the timestamp is its two members.

  \<^verbatim>\<open>struct v4l2_format\<close> is used through its \<^verbatim>\<open>fmt.pix\<close> member only. In
  \<^verbatim>\<open>struct v4l2_streamparm\<close> the members \<^verbatim>\<open>parm.capture\<close> and \<^verbatim>\<open>parm.output\<close> of the
  union have the same layout (capability, mode, time per frame, ...) and share their
  storage, so the record has one \<open>capability\<close> and one \<open>timeperframe\<close>: reading
  \<^verbatim>\<open>parm.capture.timeperframe\<close> reads what the kernel stored for either kind of stream.
\<close>

record v4l2_capability =
  capabilities :: u32
  card :: string

record v4l2_format =
  fmt_type :: u32
  pix_width :: u32
  pix_height :: u32
  pix_pixelformat :: u32
  pix_field :: u32

record v4l2_streamparm =
  parm_type :: u32
  parm_capability :: u32
  timeperframe_numerator :: u32
  timeperframe_denominator :: u32

record v4l2_requestbuffers =
  req_count :: u32
  req_type :: u32
  req_memory :: u32

record v4l2_buffer =
  buf_index :: u32
  buf_type :: u32
  bytesused :: u32
  buf_flags :: u32
  buf_field :: u32
  timestamp_sec :: int
  timestamp_usec :: int
  sequence :: u32
  buf_memory :: u32
  m_offset :: u32
  buf_length :: u32

record v4l2_exportbuffer =
  exp_type :: u32
  exp_index :: u32
  exp_plane :: u32
  exp_flags :: u32
  exp_fd :: int

definition zero_buffer :: v4l2_buffer where
  "zero_buffer =
     \<lparr>buf_index = 0, buf_type = 0, bytesused = 0, buf_flags = 0, buf_field = 0,
      timestamp_sec = 0, timestamp_usec = 0, sequence = 0, buf_memory = 0, m_offset = 0,
      buf_length = 0\<rparr>"

definition zero_exportbuffer :: v4l2_exportbuffer where
  "zero_exportbuffer =
     \<lparr>exp_type = 0, exp_index = 0, exp_plane = 0, exp_flags = 0, exp_fd = 0\<rparr>"

section \<open>The kernel\<close>

text \<open>
  The kernel is the module's environment, and it is a parameter of the model: a kernel
  with states of type \<open>'k\<close> answers each system call from its current state with a
  result, the structure as the call leaves it, and its next state. Nothing is assumed
  about the answers. The calls are those the module makes:
  \<^verbatim>\<open>open(device, O_RDWR, 0)\<close>, \<^verbatim>\<open>fstat(fd, &stat)\<close> (result and \<^verbatim>\<open>st_mode\<close>),
  \<^verbatim>\<open>ioctl(fd, VIDIOC_..., &arg)\<close> for each request code, and
  \<^verbatim>\<open>mmap(NULL, length, prot, MAP_SHARED, fd, offset)\<close>. The module never calls
  \<^verbatim>\<open>munmap\<close>, \<^verbatim>\<open>close\<close> or \<^verbatim>\<open>VIDIOC_STREAMOFF\<close>.
\<close>

record 'k kernel =
  k_open :: "'k \<Rightarrow> string \<Rightarrow> int \<times> 'k"
  k_fstat :: "'k \<Rightarrow> int \<Rightarrow> int \<times> u32 \<times> 'k"
  k_querycap :: "'k \<Rightarrow> int \<Rightarrow> int \<times> v4l2_capability \<times> 'k"
  k_s_fmt :: "'k \<Rightarrow> int \<Rightarrow> v4l2_format \<Rightarrow> int \<times> v4l2_format \<times> 'k"
  k_g_parm :: "'k \<Rightarrow> int \<Rightarrow> v4l2_streamparm \<Rightarrow> int \<times> v4l2_streamparm \<times> 'k"
  k_s_parm :: "'k \<Rightarrow> int \<Rightarrow> v4l2_streamparm \<Rightarrow> int \<times> v4l2_streamparm \<times> 'k"
  k_reqbufs :: "'k \<Rightarrow> int \<Rightarrow> v4l2_requestbuffers \<Rightarrow> int \<times> v4l2_requestbuffers \<times> 'k"
  k_querybuf :: "'k \<Rightarrow> int \<Rightarrow> v4l2_buffer \<Rightarrow> int \<times> v4l2_buffer \<times> 'k"
  k_mmap :: "'k \<Rightarrow> u32 \<Rightarrow> int \<Rightarrow> int \<Rightarrow> u32 \<Rightarrow> addr \<times> 'k"
  k_expbuf :: "'k \<Rightarrow> int \<Rightarrow> v4l2_exportbuffer \<Rightarrow> int \<times> v4l2_exportbuffer \<times> 'k"
  k_dqbuf :: "'k \<Rightarrow> int \<Rightarrow> v4l2_buffer \<Rightarrow> int \<times> v4l2_buffer \<times> 'k"
  k_qbuf :: "'k \<Rightarrow> int \<Rightarrow> v4l2_buffer \<Rightarrow> int \<times> v4l2_buffer \<times> 'k"
  k_streamon :: "'k \<Rightarrow> int \<Rightarrow> u32 \<Rightarrow> int \<times> 'k"

section \<open>Failures\<close>

text \<open>
  Every call of \<^verbatim>\<open>error(EXIT_FAILURE, ...)\<close> in the module is one constructor, named after
  its message; since the status is not zero, \<^verbatim>\<open>error\<close> does not return: the process
  exits with \<^verbatim>\<open>EXIT_FAILURE\<close>. The last constructor stands for the one undefined
  behaviour the loops can reach, the overflow of their \<^verbatim>\<open>int\<close> counter.

  A function of the module returns \<open>Inl\<close> failure when it terminates the process and
  \<open>Inr\<close> value when it returns to its caller, together with the kernel's state at that
  point. The logging macros (\<^verbatim>\<open>pr_verb\<close>, \<^verbatim>\<open>pr_debug\<close>, \<^verbatim>\<open>pr_cont\<close>, \<^verbatim>\<open>pr_warn\<close>) and
  the two printing functions have no part in the results and are left out.
\<close>

datatype failure =
    Can_not_open
  | Can_not_stat
  | Not_a_character_device
  | Can_not_query_device_capabilities
  | Does_not_support_required_capabilities
  | Supports_unsupported_capabilities
  | Can_not_set_format
  | Can_not_set_requested_size
  | Can_not_set_requested_pixel_format
  | Can_not_get_device_streaming_parameters
  | Can_not_set_device_streaming_parameters
  | Failed_to_set_requested_framerate
  | Can_not_request_buffers
  | Device_gives_zero_buffers
  | Device_gives_other_count
  | Can_not_query_buffer
  | Can_not_mmap_buffer
  | Can_not_export_buffer
  | Can_not_dequeue_buffer
  | Can_not_enqueue_buffer
  | Failed_to_start_stream
  | Int_counter_overflow

text \<open>
  The value of \<^verbatim>\<open>v4l2_framerate_get\<close> is a \<^verbatim>\<open>float\<close>: either the macro \<^verbatim>\<open>NAN\<close>, or the
  value of the expression \<^verbatim>\<open>(float)denominator / numerator\<close>, kept as the pair of its
  operands (no floating-point arithmetic is modelled).
\<close>

datatype c_float = NAN | Float_div u32 u32

section \<open>The functions of the module\<close>

text \<open>
  \<^verbatim>\<open>v4l2_open\<close>: \<^verbatim>\<open>open\<close>, \<^verbatim>\<open>fstat\<close> and the test for a character device,
  \<^verbatim>\<open>VIDIOC_QUERYCAP\<close> and the two tests of the capability bits; the card name is copied
  when the caller passes a buffer for it.
\<close>

definition v4l2_open ::
  "'k kernel \<Rightarrow> 'k \<Rightarrow> string \<Rightarrow> u32 \<Rightarrow> u32 \<Rightarrow> bool \<Rightarrow> (failure + int \<times> string option) \<times> 'k"
where
  "v4l2_open K k device positive negative want_card =
     (case k_open K k device of (fd, k1) \<Rightarrow>
        if fd < 0 then (Inl Can_not_open, k1)
        else (case k_fstat K k1 fd of (r, st_mode, k2) \<Rightarrow>
          if r = - 1 then (Inl Can_not_stat, k2)
          else if \<not> S_ISCHR st_mode then (Inl Not_a_character_device, k2)
          else (case k_querycap K k2 fd of (ret, cap, k3) \<Rightarrow>
            if ret \<noteq> 0 then (Inl Can_not_query_device_capabilities, k3)
            else if capabilities cap AND positive \<noteq> positive
              then (Inl Does_not_support_required_capabilities, k3)
            else if capabilities cap AND negative \<noteq> 0
              then (Inl Supports_unsupported_capabilities, k3)
            else (Inr (fd, if want_card then Some (card cap) else None), k3))))"

text \<open>
  \<^verbatim>\<open>v4l2_configure\<close>: \<^verbatim>\<open>VIDIOC_S_FMT\<close> with the requested type, size and pixel format and
  \<^verbatim>\<open>V4L2_FIELD_ANY\<close>, then the comparison of what the driver left in the structure with
  what was requested.
\<close>

definition v4l2_configure ::
  "'k kernel \<Rightarrow> 'k \<Rightarrow> int \<Rightarrow> u32 \<Rightarrow> u32 \<Rightarrow> u32 \<Rightarrow> u32 \<Rightarrow> (failure + unit) \<times> 'k"
where
  "v4l2_configure K k fd type pixelformat width height =
     (case k_s_fmt K k fd
             \<lparr>fmt_type = type, pix_width = width, pix_height = height,
              pix_pixelformat = pixelformat, pix_field = V4L2_FIELD_ANY\<rparr> of
        (rc, fmt, k1) \<Rightarrow>
          if rc \<noteq> 0 then (Inl Can_not_set_format, k1)
          else if pix_width fmt \<noteq> width \<or> pix_height fmt \<noteq> height
            then (Inl Can_not_set_requested_size, k1)
          else if pix_pixelformat fmt \<noteq> pixelformat
            then (Inl Can_not_set_requested_pixel_format, k1)
          else (Inr (), k1))"

text \<open>
  \<^verbatim>\<open>v4l2_framerate_configure\<close>: \<^verbatim>\<open>VIDIOC_G_PARM\<close>; for a capture or an output stream the
  function returns with a warning when the driver cannot adjust the time per frame, and
  otherwise sets the time per frame to 1 / framerate; \<^verbatim>\<open>VIDIOC_S_PARM\<close>; the test of the
  denominator the driver left.
\<close>

definition v4l2_framerate_configure ::
  "'k kernel \<Rightarrow> 'k \<Rightarrow> int \<Rightarrow> u32 \<Rightarrow> u32 \<Rightarrow> (failure + unit) \<times> 'k"
where
  "v4l2_framerate_configure K k fd type framerate =
     (case k_g_parm K k fd
             \<lparr>parm_type = type, parm_capability = 0, timeperframe_numerator = 0,
              timeperframe_denominator = 0\<rparr> of
        (rc, parm, k1) \<Rightarrow>
          if rc \<noteq> 0 then (Inl Can_not_get_device_streaming_parameters, k1)
          else if type = V4L2_BUF_TYPE_VIDEO_CAPTURE
                  \<and> parm_capability parm AND V4L2_CAP_TIMEPERFRAME = 0
            then (Inr (), k1)
          else if type \<noteq> V4L2_BUF_TYPE_VIDEO_CAPTURE \<and> type = V4L2_BUF_TYPE_VIDEO_OUTPUT
                  \<and> parm_capability parm AND V4L2_CAP_TIMEPERFRAME = 0
            then (Inr (), k1)
          else
            (case k_s_parm K k1 fd
                    (if type = V4L2_BUF_TYPE_VIDEO_CAPTURE \<or> type = V4L2_BUF_TYPE_VIDEO_OUTPUT
                     then parm\<lparr>timeperframe_numerator := 1,
                               timeperframe_denominator := framerate\<rparr>
                     else parm) of
               (rc2, parm2, k2) \<Rightarrow>
                 if rc2 \<noteq> 0 then (Inl Can_not_set_device_streaming_parameters, k2)
                 else if (type = V4L2_BUF_TYPE_VIDEO_CAPTURE
                            \<and> timeperframe_denominator parm2 \<noteq> framerate)
                         \<or> (type = V4L2_BUF_TYPE_VIDEO_OUTPUT
                            \<and> timeperframe_denominator parm2 \<noteq> framerate)
                   then (Inl Failed_to_set_requested_framerate, k2)
                 else (Inr (), k2)))"

text \<open>
  \<^verbatim>\<open>v4l2_framerate_get\<close>: \<^verbatim>\<open>VIDIOC_G_PARM\<close>; a warning and \<^verbatim>\<open>NAN\<close> when it fails, and
  otherwise \<^verbatim>\<open>(float)parm.parm.capture.timeperframe.denominator /
  parm.parm.capture.timeperframe.numerator\<close>.
\<close>

definition v4l2_framerate_get ::
  "'k kernel \<Rightarrow> 'k \<Rightarrow> int \<Rightarrow> u32 \<Rightarrow> (failure + c_float) \<times> 'k"
where
  "v4l2_framerate_get K k fd type =
     (case k_g_parm K k fd
             \<lparr>parm_type = type, parm_capability = 0, timeperframe_numerator = 0,
              timeperframe_denominator = 0\<rparr> of
        (rc, parm, k1) \<Rightarrow>
          if rc \<noteq> 0 then (Inr NAN, k1)
          else (Inr (Float_div (timeperframe_denominator parm) (timeperframe_numerator parm)),
                k1))"

text \<open>
  \<^verbatim>\<open>v4l2_buffers_request\<close>: \<^verbatim>\<open>VIDIOC_REQBUFS\<close> for \<^verbatim>\<open>num\<close> buffers, then three tests in
  this order: the result of the call, a count of zero, a count other than \<^verbatim>\<open>num\<close>.
\<close>

definition v4l2_buffers_request ::
  "'k kernel \<Rightarrow> 'k \<Rightarrow> int \<Rightarrow> u32 \<Rightarrow> u32 \<Rightarrow> u32 \<Rightarrow> (failure + u32) \<times> 'k"
where
  "v4l2_buffers_request K k fd type num memory =
     (case k_reqbufs K k fd \<lparr>req_count = num, req_type = type, req_memory = memory\<rparr> of
        (rc, reqbuf, k1) \<Rightarrow>
          if rc \<noteq> 0 then (Inl Can_not_request_buffers, k1)
          else if req_count reqbuf = 0 then (Inl Device_gives_zero_buffers, k1)
          else if req_count reqbuf \<noteq> num then (Inl Device_gives_other_count, k1)
          else (Inr (req_count reqbuf), k1))"

text \<open>
  The two loops \<^verbatim>\<open>for (int i = 0; i < num; ++i)\<close>. The caller's array \<^verbatim>\<open>bufs\<close> is a map from
  indices to elements, and \<^verbatim>\<open>bufs[i] = ...\<close> updates it at \<open>i\<close>. The counter is an \<^verbatim>\<open>int\<close>
  compared with an unsigned \<^verbatim>\<open>num\<close>: while it is not negative the comparison is the one of
  natural numbers, and \<^verbatim>\<open>++i\<close> at \<^verbatim>\<open>INT_MAX\<close> (reached only when \<^verbatim>\<open>num\<close> exceeds
  \<^verbatim>\<open>INT_MAX\<close>) is undefined. A failure inside the loop terminates the process at once: no
  statement of the function runs after it.
\<close>

function mmap_loop ::
  "'k kernel \<Rightarrow> int \<Rightarrow> u32 \<Rightarrow> int \<Rightarrow> nat \<Rightarrow> nat \<Rightarrow> (nat \<rightharpoonup> addr) \<Rightarrow> 'k
     \<Rightarrow> (failure + (nat \<rightharpoonup> addr)) \<times> 'k"
where
  "mmap_loop K fd type prot num i bufs k =
     (if i < num then
        (case k_querybuf K k fd (zero_buffer\<lparr>buf_index := of_nat i, buf_type := type\<rparr>) of
           (rc, buf, k1) \<Rightarrow>
             if rc \<noteq> 0 then (Inl Can_not_query_buffer, k1)
             else
               (case k_mmap K k1 (buf_length buf) prot fd (m_offset buf) of
                  (p, k2) \<Rightarrow>
                    if p = MAP_FAILED then (Inl Can_not_mmap_buffer, k2)
                    else if i = INT_MAX then (Inl Int_counter_overflow, k2)
                    else mmap_loop K fd type prot num (Suc i) (bufs(i \<mapsto> p)) k2))
      else (Inr bufs, k))"
  by pat_completeness auto
termination
  by (relation "measure (\<lambda>(K, fd, type, prot, num, i, bufs, k). num - i)") auto

definition v4l2_buffers_mmap ::
  "'k kernel \<Rightarrow> 'k \<Rightarrow> int \<Rightarrow> u32 \<Rightarrow> u32 \<Rightarrow> (nat \<rightharpoonup> addr) \<Rightarrow> int
     \<Rightarrow> (failure + (nat \<rightharpoonup> addr)) \<times> 'k"
where
  "v4l2_buffers_mmap K k fd type num bufs prot = mmap_loop K fd type prot (unat num) 0 bufs k"

function export_loop ::
  "'k kernel \<Rightarrow> int \<Rightarrow> u32 \<Rightarrow> nat \<Rightarrow> nat \<Rightarrow> (nat \<rightharpoonup> int) \<Rightarrow> 'k
     \<Rightarrow> (failure + (nat \<rightharpoonup> int)) \<times> 'k"
where
  "export_loop K fd type num i bufs k =
     (if i < num then
        (case k_expbuf K k fd (zero_exportbuffer\<lparr>exp_index := of_nat i, exp_type := type\<rparr>) of
           (rc, ebuf, k1) \<Rightarrow>
             if rc \<noteq> 0 then (Inl Can_not_export_buffer, k1)
             else if i = INT_MAX then (Inl Int_counter_overflow, k1)
             else export_loop K fd type num (Suc i) (bufs(i \<mapsto> exp_fd ebuf)) k1)
      else (Inr bufs, k))"
  by pat_completeness auto
termination
  by (relation "measure (\<lambda>(K, fd, type, num, i, bufs, k). num - i)") auto

definition v4l2_buffers_export ::
  "'k kernel \<Rightarrow> 'k \<Rightarrow> int \<Rightarrow> u32 \<Rightarrow> u32 \<Rightarrow> (nat \<rightharpoonup> int) \<Rightarrow> (failure + (nat \<rightharpoonup> int)) \<times> 'k"
where
  "v4l2_buffers_export K k fd type num bufs = export_loop K fd type (unat num) 0 bufs k"

text \<open>
  The kernel serves a run of the mapping loop when, in every round below the count that
  the run reaches with all earlier rounds done, the query of the index succeeds and the
  mapping of the queried length at the queried offset succeeds; and it serves a run of
  the export loop when the export of the index succeeds in every such round. (The run
  of the first \<open>i\<close> rounds is the loop with bound \<open>i\<close>.)
\<close>

definition every_mapping_succeeds ::
  "'k kernel \<Rightarrow> 'k \<Rightarrow> int \<Rightarrow> u32 \<Rightarrow> u32 \<Rightarrow> (nat \<rightharpoonup> addr) \<Rightarrow> int \<Rightarrow> bool"
where
  "every_mapping_succeeds K k fd type num bufs prot \<longleftrightarrow>
     (\<forall>i<unat num. \<forall>bufs_i k_i.
        mmap_loop K fd type prot i 0 bufs k = (Inr bufs_i, k_i) \<longrightarrow>
        (\<exists>buf k1 p k2.
           k_querybuf K k_i fd (zero_buffer\<lparr>buf_index := of_nat i, buf_type := type\<rparr>)
             = (0, buf, k1)
         \<and> k_mmap K k1 (buf_length buf) prot fd (m_offset buf) = (p, k2)
         \<and> p \<noteq> MAP_FAILED))"

definition every_export_succeeds ::
  "'k kernel \<Rightarrow> 'k \<Rightarrow> int \<Rightarrow> u32 \<Rightarrow> u32 \<Rightarrow> (nat \<rightharpoonup> int) \<Rightarrow> bool"
where
  "every_export_succeeds K k fd type num fds \<longleftrightarrow>
     (\<forall>i<unat num. \<forall>fds_i k_i.
        export_loop K fd type i 0 fds k = (Inr fds_i, k_i) \<longrightarrow>
        (\<exists>ebuf k1.
           k_expbuf K k_i fd (zero_exportbuffer\<lparr>exp_index := of_nat i, exp_type := type\<rparr>)
             = (0, ebuf, k1)))"

text \<open>
  \<^verbatim>\<open>v4l2_dqbuf\<close> and \<^verbatim>\<open>v4l2_qbuf\<close> pass the caller's structure to the kernel; when they
  return, the caller's structure is the one the kernel left.
\<close>

definition v4l2_dqbuf ::
  "'k kernel \<Rightarrow> 'k \<Rightarrow> int \<Rightarrow> v4l2_buffer \<Rightarrow> (failure + v4l2_buffer) \<times> 'k"
where
  "v4l2_dqbuf K k fd buf =
     (case k_dqbuf K k fd buf of
        (rc, buf', k1) \<Rightarrow>
          if rc \<noteq> 0 then (Inl Can_not_dequeue_buffer, k1) else (Inr buf', k1))"

definition v4l2_qbuf ::
  "'k kernel \<Rightarrow> 'k \<Rightarrow> int \<Rightarrow> v4l2_buffer \<Rightarrow> (failure + v4l2_buffer) \<times> 'k"
where
  "v4l2_qbuf K k fd buf =
     (case k_qbuf K k fd buf of
        (rc, buf', k1) \<Rightarrow>
          if rc \<noteq> 0 then (Inl Can_not_enqueue_buffer, k1) else (Inr buf', k1))"

text \<open>\<^verbatim>\<open>v4l2_streamon\<close>: \<^verbatim>\<open>VIDIOC_STREAMON\<close> for the buffer type.\<close>

definition v4l2_streamon :: "'k kernel \<Rightarrow> 'k \<Rightarrow> int \<Rightarrow> u32 \<Rightarrow> (failure + unit) \<times> 'k" where
  "v4l2_streamon K k fd type =
     (case k_streamon K k fd type of
        (rc, k1) \<Rightarrow> if rc \<noteq> 0 then (Inl Failed_to_start_stream, k1) else (Inr (), k1))"

section \<open>The vocabulary of the specification\<close>

text \<open>
  The specification names the errors of its design; the module has one message per
  failure. Each name below stands for the failure whose cause the specification gives
  for it: a grant of zero buffers (\<open>UnsupportedCapability\<close>), a grant that is not the
  requested count (\<open>CountMismatch\<close>), a mapping that fails (\<open>MapFailed\<close>), an enqueue call
  that errors (\<open>DriverRejected\<close>), a dequeue call that errors (\<open>DequeueFailed\<close>), a
  stream-on request that the driver rejects (\<open>StreamStartFailed\<close>). \<open>InvalidState\<close> is
  the specification's error of a queue operation that finds the buffer already queued
  in its own record of the buffers; no failure of the module has that cause.
\<close>

datatype spec_error =
    UnsupportedCapability
  | CountMismatch
  | MapFailed
  | InvalidState
  | DriverRejected
  | DequeueFailed
  | StreamStartFailed

fun spec_error_of :: "failure \<Rightarrow> spec_error option" where
  "spec_error_of Device_gives_zero_buffers = Some UnsupportedCapability"
| "spec_error_of Device_gives_other_count = Some CountMismatch"
| "spec_error_of Can_not_mmap_buffer = Some MapFailed"
| "spec_error_of Can_not_enqueue_buffer = Some DriverRejected"
| "spec_error_of Can_not_dequeue_buffer = Some DequeueFailed"
| "spec_error_of Failed_to_start_stream = Some StreamStartFailed"
| "spec_error_of _ = None"

text \<open>
  The specification's state of one buffer and of the stream. The module stores neither:
  which side holds a buffer, and whether the stream runs, is state of the driver. The
  three predicates below say, in the specification's words, what the queue, dequeue and
  stream-on requests do to that state, for a driver whose state \<open>k\<close> is read through
  \<open>owner k\<close> (the state of each index) or \<open>stream k\<close>:
  a queue request is accepted only for a buffer that is \<open>Free\<close> or \<open>DequeuedByApp\<close> and
  makes it \<open>QueuedToDriver\<close>, and a rejected one changes no buffer's state;
  a dequeue request that succeeds returns a buffer that was \<open>QueuedToDriver\<close> and makes
  it \<open>DequeuedByApp\<close>;
  a stream-on request that is accepted makes the stream \<open>Running\<close>, and a rejected one
  leaves the stream as it was.
\<close>

datatype buffer_state = Free | QueuedToDriver | DequeuedByApp

datatype stream_state = Stopped | Running




text \<open>POSIX: \<^verbatim>\<open>mmap\<close> fails when the length is zero.\<close>

definition mmap_refuses_zero_length :: "'k kernel \<Rightarrow> bool" where
  "mmap_refuses_zero_length K \<longleftrightarrow>
     (\<forall>k prot fd offset. fst (k_mmap K k 0 prot fd offset) = MAP_FAILED)"

section \<open>Watching a kernel for failed calls\<close>

text \<open>
  \<open>watched K\<close> behaves as \<open>K\<close> and carries a flag that is set once a system call has
  failed: \<^verbatim>\<open>open\<close> with a negative result, \<^verbatim>\<open>fstat\<close> with -1, \<^verbatim>\<open>ioctl\<close> with a result
  other than 0, \<^verbatim>\<open>mmap\<close> with \<^verbatim>\<open>MAP_FAILED\<close>.
\<close>

definition watched :: "'k kernel \<Rightarrow> ('k \<times> bool) kernel" where
  "watched K =
     \<lparr>k_open = (\<lambda>(k, f) device.
         case k_open K k device of (fd, k') \<Rightarrow> (fd, (k', f \<or> fd < 0))),
      k_fstat = (\<lambda>(k, f) fd.
         case k_fstat K k fd of (r, m, k') \<Rightarrow> (r, m, (k', f \<or> r = - 1))),
      k_querycap = (\<lambda>(k, f) fd.
         case k_querycap K k fd of (rc, c, k') \<Rightarrow> (rc, c, (k', f \<or> rc \<noteq> 0))),
      k_s_fmt = (\<lambda>(k, f) fd a.
         case k_s_fmt K k fd a of (rc, a', k') \<Rightarrow> (rc, a', (k', f \<or> rc \<noteq> 0))),
      k_g_parm = (\<lambda>(k, f) fd a.
         case k_g_parm K k fd a of (rc, a', k') \<Rightarrow> (rc, a', (k', f \<or> rc \<noteq> 0))),
      k_s_parm = (\<lambda>(k, f) fd a.
         case k_s_parm K k fd a of (rc, a', k') \<Rightarrow> (rc, a', (k', f \<or> rc \<noteq> 0))),
      k_reqbufs = (\<lambda>(k, f) fd a.
         case k_reqbufs K k fd a of (rc, a', k') \<Rightarrow> (rc, a', (k', f \<or> rc \<noteq> 0))),
      k_querybuf = (\<lambda>(k, f) fd a.
         case k_querybuf K k fd a of (rc, a', k') \<Rightarrow> (rc, a', (k', f \<or> rc \<noteq> 0))),
      k_mmap = (\<lambda>(k, f) len prot fd offset.
         case k_mmap K k len prot fd offset of (p, k') \<Rightarrow> (p, (k', f \<or> p = MAP_FAILED))),
      k_expbuf = (\<lambda>(k, f) fd a.
         case k_expbuf K k fd a of (rc, a', k') \<Rightarrow> (rc, a', (k', f \<or> rc \<noteq> 0))),
      k_dqbuf = (\<lambda>(k, f) fd a.
         case k_dqbuf K k fd a of (rc, a', k') \<Rightarrow> (rc, a', (k', f \<or> rc \<noteq> 0))),
      k_qbuf = (\<lambda>(k, f) fd a.
         case k_qbuf K k fd a of (rc, a', k') \<Rightarrow> (rc, a', (k', f \<or> rc \<noteq> 0))),
      k_streamon = (\<lambda>(k, f) fd type.
         case k_streamon K k fd type of (rc, k') \<Rightarrow> (rc, (k', f \<or> rc \<noteq> 0)))\<rparr>"

definition call_failed :: "'a \<times> 'k \<times> bool \<Rightarrow> bool" where
  "call_failed r = snd (snd r)"

section \<open>A simulated driver\<close>

text \<open>
  A concrete kernel for the examples: a capture device that allocates at most
  \<open>sim_limit\<close> buffers of \<open>sim_size\<close> bytes, keeps the state of every allocated buffer
  and the order in which buffers were queued, refuses to queue a buffer it holds,
  completes queued buffers in order while the stream runs, starts the stream only when
  the whole pool is queued, and can establish \<open>sim_room\<close> more mappings. It records the
  mappings it has established in \<open>sim_maps\<close>.
\<close>

record sim =
  sim_limit :: nat
  sim_size :: u32
  sim_room :: nat
  sim_bufs :: "buffer_state list"
  sim_queue :: "nat list"
  sim_stream :: stream_state
  sim_maps :: "(addr \<times> u32) list"
  sim_frames :: u32


definition sim_S_FMT :: "sim \<Rightarrow> int \<Rightarrow> v4l2_format \<Rightarrow> int \<times> v4l2_format \<times> sim" where
  "sim_S_FMT s fd fmt =
     (0, fmt\<lparr>pix_width := min (pix_width fmt) 1920, pix_height := min (pix_height fmt) 1080,
             pix_field := V4L2_FIELD_NONE\<rparr>, s)"

definition sim_G_PARM :: "sim \<Rightarrow> int \<Rightarrow> v4l2_streamparm \<Rightarrow> int \<times> v4l2_streamparm \<times> sim" where
  "sim_G_PARM s fd parm =
     (0, parm\<lparr>parm_capability := V4L2_CAP_TIMEPERFRAME, timeperframe_numerator := 1,
              timeperframe_denominator := 30\<rparr>, s)"

definition sim_REQBUFS ::
  "sim \<Rightarrow> int \<Rightarrow> v4l2_requestbuffers \<Rightarrow> int \<times> v4l2_requestbuffers \<times> sim"
where
  "sim_REQBUFS s fd req =
     (let n = min (unat (req_count req)) (sim_limit s) in
      (0, req\<lparr>req_count := of_nat n\<rparr>,
       s\<lparr>sim_bufs := replicate n Free, sim_queue := []\<rparr>))"

definition sim_QUERYBUF :: "sim \<Rightarrow> int \<Rightarrow> v4l2_buffer \<Rightarrow> int \<times> v4l2_buffer \<times> sim" where
  "sim_QUERYBUF s fd buf =
     (if unat (buf_index buf) < length (sim_bufs s)
      then (0, buf\<lparr>buf_memory := V4L2_MEMORY_MMAP, buf_length := sim_size s,
                   m_offset := buf_index buf * sim_size s\<rparr>, s)
      else (- 1, buf, s))"

definition sim_mmap :: "sim \<Rightarrow> u32 \<Rightarrow> int \<Rightarrow> int \<Rightarrow> u32 \<Rightarrow> addr \<times> sim" where
  "sim_mmap s len prot fd offset =
     (if len = 0 \<or> sim_room s = 0 then (MAP_FAILED, s)
      else (0x7F0000000000 + ucast offset,
            s\<lparr>sim_room := sim_room s - 1,
              sim_maps := sim_maps s @ [(0x7F0000000000 + ucast offset, len)]\<rparr>))"

definition sim_EXPBUF ::
  "sim \<Rightarrow> int \<Rightarrow> v4l2_exportbuffer \<Rightarrow> int \<times> v4l2_exportbuffer \<times> sim"
where
  "sim_EXPBUF s fd ebuf =
     (if unat (exp_index ebuf) < length (sim_bufs s)
      then (0, ebuf\<lparr>exp_fd := 10 + uint (exp_index ebuf)\<rparr>, s)
      else (- 1, ebuf, s))"

definition sim_QBUF :: "sim \<Rightarrow> int \<Rightarrow> v4l2_buffer \<Rightarrow> int \<times> v4l2_buffer \<times> sim" where
  "sim_QBUF s fd buf =
     (let i = unat (buf_index buf) in
      if i < length (sim_bufs s) \<and> sim_bufs s ! i \<noteq> QueuedToDriver
      then (0, buf, s\<lparr>sim_bufs := (sim_bufs s)[i := QueuedToDriver],
                      sim_queue := sim_queue s @ [i]\<rparr>)
      else (- 1, buf, s))"

definition sim_DQBUF :: "sim \<Rightarrow> int \<Rightarrow> v4l2_buffer \<Rightarrow> int \<times> v4l2_buffer \<times> sim" where
  "sim_DQBUF s fd buf =
     (case sim_queue s of
        [] \<Rightarrow> (- 1, buf, s)
      | i # rest \<Rightarrow>
          if sim_stream s = Running \<and> i < length (sim_bufs s)
             \<and> sim_bufs s ! i = QueuedToDriver \<and> i < 2 ^ 32
          then (0, buf\<lparr>buf_index := of_nat i, bytesused := sim_size s, buf_flags := 0,
                       timestamp_sec := 1 + uint (sim_frames s), timestamp_usec := 0,
                       sequence := sim_frames s, buf_length := sim_size s\<rparr>,
                s\<lparr>sim_bufs := (sim_bufs s)[i := DequeuedByApp], sim_queue := rest,
                  sim_frames := sim_frames s + 1\<rparr>)
          else (- 1, buf, s))"

definition sim_STREAMON :: "sim \<Rightarrow> int \<Rightarrow> u32 \<Rightarrow> int \<times> sim" where
  "sim_STREAMON s fd type =
     (if sim_bufs s \<noteq> [] \<and> (\<forall>b \<in> set (sim_bufs s). b = QueuedToDriver)
      then (0, s\<lparr>sim_stream := Running\<rparr>)
      else (- 1, s))"

definition sim_kernel :: "sim kernel" where
  "sim_kernel =
     \<lparr>k_open = (\<lambda>s device. (3, s)),
      k_fstat = (\<lambda>s fd. (0, 0x2180, s)),
      k_querycap = (\<lambda>s fd. (0, \<lparr>capabilities = 0x04000001, card = ''sim''\<rparr>, s)),
      k_s_fmt = sim_S_FMT,
      k_g_parm = sim_G_PARM,
      k_s_parm = (\<lambda>s fd parm. (0, parm, s)),
      k_reqbufs = sim_REQBUFS,
      k_querybuf = sim_QUERYBUF,
      k_mmap = sim_mmap,
      k_expbuf = sim_EXPBUF,
      k_dqbuf = sim_DQBUF,
      k_qbuf = sim_QBUF,
      k_streamon = sim_STREAMON\<rparr>"

text \<open>A device with room for four buffers of 4096 bytes, before any request.\<close>

definition sim0 :: sim where
  "sim0 =
     \<lparr>sim_limit = 4, sim_size = 4096, sim_room = 4, sim_bufs = [], sim_queue = [],
      sim_stream = Stopped, sim_maps = [], sim_frames = 0\<rparr>"

text \<open>
  A device that has gone away: every call fails. And a kernel whose \<^verbatim>\<open>mmap\<close> does not
  look at the length.
\<close>

definition gone_kernel :: "unit kernel" where
  "gone_kernel =
     \<lparr>k_open = (\<lambda>s device. (- 1, s)),
      k_fstat = (\<lambda>s fd. (- 1, 0, s)),
      k_querycap = (\<lambda>s fd. (- 1, \<lparr>capabilities = 0, card = []\<rparr>, s)),
      k_s_fmt = (\<lambda>s fd a. (- 1, a, s)),
      k_g_parm = (\<lambda>s fd a. (- 1, a, s)),
      k_s_parm = (\<lambda>s fd a. (- 1, a, s)),
      k_reqbufs = (\<lambda>s fd a. (- 1, a, s)),
      k_querybuf = (\<lambda>s fd a. (- 1, a, s)),
      k_mmap = (\<lambda>s len prot fd offset. (MAP_FAILED, s)),
      k_expbuf = (\<lambda>s fd a. (- 1, a, s)),
      k_dqbuf = (\<lambda>s fd a. (- 1, a, s)),
      k_qbuf = (\<lambda>s fd a. (- 1, a, s)),
      k_streamon = (\<lambda>s fd type. (- 1, s))\<rparr>"

definition lax_kernel :: "sim kernel" where
  "lax_kernel =
     sim_kernel\<lparr>k_mmap := (\<lambda>s len prot fd offset.
        (0x7F0000000000 + ucast offset,
         s\<lparr>sim_maps := sim_maps s @ [(0x7F0000000000 + ucast offset, len)]\<rparr>))\<rparr>"



text \<open>
  A kernel that serves every request for every index: each buffer has 4096 bytes and
  is mapped at an even address.
\<close>

definition serving_kernel :: "unit kernel" where
  "serving_kernel =
     gone_kernel\<lparr>
       k_querybuf := (\<lambda>s fd buf.
         (0, buf\<lparr>buf_memory := V4L2_MEMORY_MMAP, buf_length := 4096,
                 m_offset := buf_index buf * 4096\<rparr>, s)),
       k_mmap := (\<lambda>s len prot fd offset. (2 * ucast offset, s)),
       k_expbuf := (\<lambda>s fd ebuf. (0, ebuf\<lparr>exp_fd := 10 + uint (exp_index ebuf)\<rparr>, s))\<rparr>"

text \<open>
  The simulated device after a request for two buffers, and the structure a caller
  passes for the buffer of index 0.
\<close>

definition sim2 :: sim where
  "sim2 = sim0\<lparr>sim_bufs := [Free, Free]\<rparr>"

definition frame0 :: v4l2_buffer where
  "frame0 = zero_buffer\<lparr>buf_type := V4L2_BUF_TYPE_VIDEO_CAPTURE,
                         buf_memory := V4L2_MEMORY_MMAP\<rparr>"

section \<open>The name tables: results\<close>

lemma v4l2_field_names_eq:
  "v4l2_field_names =
     [Some ''any'', Some ''none'', Some ''top'', Some ''bottom'', Some ''interlaced'',
      Some ''seq-tb'', Some ''seq-bt'', Some ''alternate'', Some ''interlaced-tb'',
      Some ''interlaced-bt'']"
  by code_simp

lemma v4l2_type_names_eq:
  "v4l2_type_names =
     [None, Some ''vid-cap'', Some ''vid-out'', Some ''vid-overlay'', Some ''vbi-cap'',
      Some ''vbi-out'', Some ''sliced-vbi-cap'', Some ''sliced-vbi-out'',
      Some ''vid-out-overlay'', Some ''vid-cap-mplane'', Some ''vid-out-mplane'',
      Some ''sdr-cap'']"
  by code_simp

lemma v4l2_memory_names_eq:
  "v4l2_memory_names =
     [None, Some ''mmap'', Some ''userptr'', Some ''overlay'', Some ''dmabuf'']"
  by code_simp

text \<open>
  The guard of \<^verbatim>\<open>v4l2_name\<close> keeps every read inside the table: the result is either the
  fallback string or the element at an index below the table's size.
\<close>

lemma v4l2_name_in_bounds:
  "v4l2_name a arr = Some ''unknown'' \<and> \<not> unat a < length arr
   \<or> unat a < length arr \<and> v4l2_name a arr = arr ! unat a"
  by (simp add: v4l2_name_def ARRAY_SIZE_def)

lemma v4l2_name_beyond_table:
  "length arr \<le> unat a \<Longrightarrow> v4l2_name a arr = Some ''unknown''"
  by (simp add: v4l2_name_def ARRAY_SIZE_def)

text \<open>The field table has no hole: \<^verbatim>\<open>v4l2_field_name\<close> never returns the null pointer.\<close>

lemma v4l2_field_name_not_null: "v4l2_field_name field \<noteq> None"
proof (cases "unat field < 10")
  case False
  then show ?thesis
    by (simp add: v4l2_field_name_def v4l2_name_def ARRAY_SIZE_def v4l2_field_names_eq)
next
  case True
  then have "unat field \<in> {0, 1, 2, 3, 4, 5, 6, 7, 8, 9}"
    by auto
  then show ?thesis
    by (auto simp: v4l2_field_name_def v4l2_name_def ARRAY_SIZE_def v4l2_field_names_eq)
qed

text \<open>
  C8. The claim: for every input value the three name functions stay inside their tables
  and always return a non-null string. The first half holds (\<open>v4l2_name_in_bounds\<close>), and
  so does the second for \<^verbatim>\<open>v4l2_field_name\<close>. The type and memory tables are indexed by
  enumerations that start at 1, so their element 0 is a null pointer, and the value 0
  passes the bounds test: \<^verbatim>\<open>v4l2_type_name(0)\<close> and \<^verbatim>\<open>v4l2_memory_name(0)\<close> return the
  null pointer, where a value at or beyond the table's size gets \<^verbatim>\<open>"unknown"\<close>.
\<close>

theorem v4l2_name_null_at_zero:
  "v4l2_type_name 0 = None \<and> v4l2_memory_name 0 = None
   \<and> v4l2_type_name 12 = Some ''unknown'' \<and> v4l2_memory_name 5 = Some ''unknown''"
  by (simp add: v4l2_type_name_def v4l2_memory_name_def v4l2_name_def ARRAY_SIZE_def
      v4l2_type_names_eq v4l2_memory_names_eq)

section \<open>Requesting buffers\<close>

lemmas sim_defs =
  sim_kernel_def sim0_def sim2_def frame0_def zero_buffer_def zero_exportbuffer_def
  sim_S_FMT_def sim_G_PARM_def sim_REQBUFS_def sim_QUERYBUF_def sim_mmap_def sim_EXPBUF_def
  sim_QBUF_def sim_DQBUF_def sim_STREAMON_def MAP_FAILED_def INT_MAX_def

lemma replicate_two_four:
  "replicate 2 x = [x, x]" "replicate 4 x = [x, x, x, x]"
  by (simp_all add: numeral_eq_Suc)

lemma v4l2_buffers_request_cases:
  assumes "k_reqbufs K k fd \<lparr>req_count = num, req_type = type, req_memory = memory\<rparr>
             = (rc, reqbuf, k')"
  shows "v4l2_buffers_request K k fd type num memory =
           (if rc \<noteq> 0 then Inl Can_not_request_buffers
            else if req_count reqbuf = 0 then Inl Device_gives_zero_buffers
            else if req_count reqbuf \<noteq> num then Inl Device_gives_other_count
            else Inr num, k')"
  using assms by (simp add: v4l2_buffers_request_def)

text \<open>The simulated device grants what is asked up to its limit.\<close>

lemma sim_request_two:
  "v4l2_buffers_request sim_kernel sim0 3 V4L2_BUF_TYPE_VIDEO_CAPTURE 2 V4L2_MEMORY_MMAP
     = (Inr 2, sim2)"
  by (simp add: v4l2_buffers_request_def sim_defs replicate_two_four)

text \<open>
  C4. For every requested count, when the driver grants zero buffers (the request
  itself succeeds and leaves the count 0) the function fails with the failure
  "Device gives zero buffers", the specification's \<open>UnsupportedCapability\<close>: the process
  terminates there, so no count is returned and nothing is mapped or exported.
\<close>

theorem request_zero_grant:
  assumes "k_reqbufs K k fd \<lparr>req_count = num, req_type = type, req_memory = memory\<rparr>
             = (0, reqbuf, k')"
    and "req_count reqbuf = 0"
  shows "v4l2_buffers_request K k fd type num memory = (Inl Device_gives_zero_buffers, k')
         \<and> spec_error_of Device_gives_zero_buffers = Some UnsupportedCapability"
  using assms by (simp add: v4l2_buffers_request_cases)

theorem request_zero_grant_witness:
  "k_reqbufs sim_kernel (sim0\<lparr>sim_limit := 0\<rparr>) 3
      \<lparr>req_count = 4, req_type = V4L2_BUF_TYPE_VIDEO_CAPTURE, req_memory = V4L2_MEMORY_MMAP\<rparr>
     = (0, \<lparr>req_count = 0, req_type = V4L2_BUF_TYPE_VIDEO_CAPTURE,
            req_memory = V4L2_MEMORY_MMAP\<rparr>, sim0\<lparr>sim_limit := 0\<rparr>)
   \<and> v4l2_buffers_request sim_kernel (sim0\<lparr>sim_limit := 0\<rparr>) 3
        V4L2_BUF_TYPE_VIDEO_CAPTURE 4 V4L2_MEMORY_MMAP
     = (Inl Device_gives_zero_buffers, sim0\<lparr>sim_limit := 0\<rparr>)
   \<and> spec_error_of Device_gives_zero_buffers = Some UnsupportedCapability"
proof -
  have grant: "k_reqbufs sim_kernel (sim0\<lparr>sim_limit := 0\<rparr>) 3
      \<lparr>req_count = 4, req_type = V4L2_BUF_TYPE_VIDEO_CAPTURE, req_memory = V4L2_MEMORY_MMAP\<rparr>
     = (0, \<lparr>req_count = 0, req_type = V4L2_BUF_TYPE_VIDEO_CAPTURE,
            req_memory = V4L2_MEMORY_MMAP\<rparr>, sim0\<lparr>sim_limit := 0\<rparr>)"
    by (simp add: sim_defs)
  from request_zero_grant [OF grant] grant show ?thesis
    by simp
qed

text \<open>
  C2. The claim: whenever the driver grants a count different from the requested one the
  function fails with \<open>CountMismatch\<close>, and whenever it grants exactly the requested
  count the function succeeds. The test for a grant of zero comes first in the function:
  a request for 4 buffers that is granted 0 fails with \<open>UnsupportedCapability\<close>, not
  with \<open>CountMismatch\<close>.
\<close>

theorem request_count_mismatch_counterexample:
  "req_count (fst (snd (k_reqbufs sim_kernel (sim0\<lparr>sim_limit := 0\<rparr>) 3
      \<lparr>req_count = 4, req_type = V4L2_BUF_TYPE_VIDEO_CAPTURE,
       req_memory = V4L2_MEMORY_MMAP\<rparr>))) \<noteq> 4
   \<and> v4l2_buffers_request sim_kernel (sim0\<lparr>sim_limit := 0\<rparr>) 3
        V4L2_BUF_TYPE_VIDEO_CAPTURE 4 V4L2_MEMORY_MMAP
     = (Inl Device_gives_zero_buffers, sim0\<lparr>sim_limit := 0\<rparr>)
   \<and> spec_error_of Device_gives_zero_buffers \<noteq> Some CountMismatch"
  by (simp add: v4l2_buffers_request_def sim_defs)

text \<open>
  C2, amended. For every requested count \<open>num\<close>, when the request succeeds at the driver:
  a granted count that is neither zero nor \<open>num\<close> makes the function fail with
  \<open>CountMismatch\<close>; a grant of exactly \<open>num\<close>, with \<open>num\<close> not zero, makes it succeed
  and return \<open>num\<close>; a grant of zero makes it fail with \<open>UnsupportedCapability\<close>,
  whatever was requested.
\<close>

theorem request_grant:
  assumes "k_reqbufs K k fd \<lparr>req_count = num, req_type = type, req_memory = memory\<rparr>
             = (0, reqbuf, k')"
  shows "(req_count reqbuf \<noteq> 0 \<and> req_count reqbuf \<noteq> num \<longrightarrow>
            v4l2_buffers_request K k fd type num memory = (Inl Device_gives_other_count, k')
            \<and> spec_error_of Device_gives_other_count = Some CountMismatch)
       \<and> (req_count reqbuf = num \<and> num \<noteq> 0 \<longrightarrow>
            v4l2_buffers_request K k fd type num memory = (Inr num, k'))
       \<and> (req_count reqbuf = 0 \<longrightarrow>
            v4l2_buffers_request K k fd type num memory = (Inl Device_gives_zero_buffers, k')
            \<and> spec_error_of Device_gives_zero_buffers = Some UnsupportedCapability)"
  using assms by (simp add: v4l2_buffers_request_cases)

theorem request_grant_witness:
  "k_reqbufs sim_kernel sim0 3
      \<lparr>req_count = 6, req_type = V4L2_BUF_TYPE_VIDEO_CAPTURE, req_memory = V4L2_MEMORY_MMAP\<rparr>
     = (0, \<lparr>req_count = 4, req_type = V4L2_BUF_TYPE_VIDEO_CAPTURE,
            req_memory = V4L2_MEMORY_MMAP\<rparr>, sim0\<lparr>sim_bufs := [Free, Free, Free, Free]\<rparr>)
   \<and> v4l2_buffers_request sim_kernel sim0 3 V4L2_BUF_TYPE_VIDEO_CAPTURE 6 V4L2_MEMORY_MMAP
     = (Inl Device_gives_other_count, sim0\<lparr>sim_bufs := [Free, Free, Free, Free]\<rparr>)
   \<and> spec_error_of Device_gives_other_count = Some CountMismatch
   \<and> k_reqbufs sim_kernel sim0 3
      \<lparr>req_count = 2, req_type = V4L2_BUF_TYPE_VIDEO_CAPTURE, req_memory = V4L2_MEMORY_MMAP\<rparr>
     = (0, \<lparr>req_count = 2, req_type = V4L2_BUF_TYPE_VIDEO_CAPTURE,
            req_memory = V4L2_MEMORY_MMAP\<rparr>, sim2)
   \<and> v4l2_buffers_request sim_kernel sim0 3 V4L2_BUF_TYPE_VIDEO_CAPTURE 2 V4L2_MEMORY_MMAP
     = (Inr 2, sim2)
   \<and> k_reqbufs sim_kernel sim0 3
      \<lparr>req_count = 0, req_type = V4L2_BUF_TYPE_VIDEO_CAPTURE, req_memory = V4L2_MEMORY_MMAP\<rparr>
     = (0, \<lparr>req_count = 0, req_type = V4L2_BUF_TYPE_VIDEO_CAPTURE,
            req_memory = V4L2_MEMORY_MMAP\<rparr>, sim0)
   \<and> v4l2_buffers_request sim_kernel sim0 3 V4L2_BUF_TYPE_VIDEO_CAPTURE 0 V4L2_MEMORY_MMAP
     = (Inl Device_gives_zero_buffers, sim0)"
proof -
  have six: "k_reqbufs sim_kernel sim0 3
      \<lparr>req_count = 6, req_type = V4L2_BUF_TYPE_VIDEO_CAPTURE, req_memory = V4L2_MEMORY_MMAP\<rparr>
     = (0, \<lparr>req_count = 4, req_type = V4L2_BUF_TYPE_VIDEO_CAPTURE,
            req_memory = V4L2_MEMORY_MMAP\<rparr>, sim0\<lparr>sim_bufs := [Free, Free, Free, Free]\<rparr>)"
    by (simp add: sim_defs replicate_two_four)
  have two: "k_reqbufs sim_kernel sim0 3
      \<lparr>req_count = 2, req_type = V4L2_BUF_TYPE_VIDEO_CAPTURE, req_memory = V4L2_MEMORY_MMAP\<rparr>
     = (0, \<lparr>req_count = 2, req_type = V4L2_BUF_TYPE_VIDEO_CAPTURE,
            req_memory = V4L2_MEMORY_MMAP\<rparr>, sim2)"
    by (simp add: sim_defs replicate_two_four)
  have none: "k_reqbufs sim_kernel sim0 3
      \<lparr>req_count = 0, req_type = V4L2_BUF_TYPE_VIDEO_CAPTURE, req_memory = V4L2_MEMORY_MMAP\<rparr>
     = (0, \<lparr>req_count = 0, req_type = V4L2_BUF_TYPE_VIDEO_CAPTURE,
            req_memory = V4L2_MEMORY_MMAP\<rparr>, sim0)"
    by (simp add: sim_defs)
  from request_grant [OF six] request_grant [OF two] request_grant [OF none] six two none
  show ?thesis
    by simp
qed

section \<open>Setting the format\<close>

text \<open>
  C10. \<^verbatim>\<open>v4l2_configure\<close> returns to its caller exactly when the request to set the format
  succeeds and the format the driver leaves in the structure has the requested width,
  height and pixel format; in every other case it terminates the process. So after a
  normal return the negotiated format is the requested one.
\<close>

theorem configure_exact:
  assumes "k_s_fmt K k fd
             \<lparr>fmt_type = type, pix_width = width, pix_height = height,
              pix_pixelformat = pixelformat, pix_field = V4L2_FIELD_ANY\<rparr> = (rc, fmt, k')"
  shows "(fst (v4l2_configure K k fd type pixelformat width height) = Inr ())
         = (rc = 0 \<and> pix_width fmt = width \<and> pix_height fmt = height
            \<and> pix_pixelformat fmt = pixelformat)"
  using assms by (auto simp: v4l2_configure_def)

theorem configure_exact_witness:
  "k_s_fmt sim_kernel sim0 3
      \<lparr>fmt_type = V4L2_BUF_TYPE_VIDEO_CAPTURE, pix_width = 640, pix_height = 480,
       pix_pixelformat = 0x56595559, pix_field = V4L2_FIELD_ANY\<rparr>
     = (0, \<lparr>fmt_type = V4L2_BUF_TYPE_VIDEO_CAPTURE, pix_width = 640, pix_height = 480,
            pix_pixelformat = 0x56595559, pix_field = V4L2_FIELD_NONE\<rparr>, sim0)
   \<and> fst (v4l2_configure sim_kernel sim0 3 V4L2_BUF_TYPE_VIDEO_CAPTURE 0x56595559 640 480)
       = Inr ()
   \<and> k_s_fmt sim_kernel sim0 3
      \<lparr>fmt_type = V4L2_BUF_TYPE_VIDEO_CAPTURE, pix_width = 4000, pix_height = 480,
       pix_pixelformat = 0x56595559, pix_field = V4L2_FIELD_ANY\<rparr>
     = (0, \<lparr>fmt_type = V4L2_BUF_TYPE_VIDEO_CAPTURE, pix_width = 1920, pix_height = 480,
            pix_pixelformat = 0x56595559, pix_field = V4L2_FIELD_NONE\<rparr>, sim0)
   \<and> fst (v4l2_configure sim_kernel sim0 3 V4L2_BUF_TYPE_VIDEO_CAPTURE 0x56595559 4000 480)
       \<noteq> Inr ()"
proof -
  have fits: "k_s_fmt sim_kernel sim0 3
      \<lparr>fmt_type = V4L2_BUF_TYPE_VIDEO_CAPTURE, pix_width = 640, pix_height = 480,
       pix_pixelformat = 0x56595559, pix_field = V4L2_FIELD_ANY\<rparr>
     = (0, \<lparr>fmt_type = V4L2_BUF_TYPE_VIDEO_CAPTURE, pix_width = 640, pix_height = 480,
            pix_pixelformat = 0x56595559, pix_field = V4L2_FIELD_NONE\<rparr>, sim0)"
    by (simp add: sim_defs)
  have clamped: "k_s_fmt sim_kernel sim0 3
      \<lparr>fmt_type = V4L2_BUF_TYPE_VIDEO_CAPTURE, pix_width = 4000, pix_height = 480,
       pix_pixelformat = 0x56595559, pix_field = V4L2_FIELD_ANY\<rparr>
     = (0, \<lparr>fmt_type = V4L2_BUF_TYPE_VIDEO_CAPTURE, pix_width = 1920, pix_height = 480,
            pix_pixelformat = 0x56595559, pix_field = V4L2_FIELD_NONE\<rparr>, sim0)"
    by (simp add: sim_defs)
  from configure_exact [OF fits] configure_exact [OF clamped] fits clamped show ?thesis
    by simp
qed

section \<open>The simulated driver keeps the contracts\<close>




lemma sim_mmap_refuses_zero_length: "mmap_refuses_zero_length sim_kernel"
  by (simp add: mmap_refuses_zero_length_def sim_kernel_def sim_mmap_def)

section \<open>Queueing a buffer\<close>


text \<open>The only failure of \<^verbatim>\<open>v4l2_qbuf\<close> is the one of the enqueue call.\<close>

lemma v4l2_qbuf_failure:
  "fst (v4l2_qbuf K k fd buf) = Inl e \<Longrightarrow> e = Can_not_enqueue_buffer"
  by (auto simp: v4l2_qbuf_def split: prod.splits if_splits)




section \<open>Dequeueing a buffer\<close>





section \<open>Starting the stream\<close>





section \<open>The mapping loop\<close>

text \<open>
  The two loops are unfolded by hand: one step when the counter is below the bound, the
  result when it is not.
\<close>

declare mmap_loop.simps [simp del]
declare export_loop.simps [simp del]

lemma mmap_loop_done: "\<not> i < num \<Longrightarrow> mmap_loop K fd type prot num i bufs k = (Inr bufs, k)"
  by (simp add: mmap_loop.simps)

lemma mmap_loop_unroll:
  "i < num \<Longrightarrow>
   mmap_loop K fd type prot num i bufs k =
     (case k_querybuf K k fd (zero_buffer\<lparr>buf_index := of_nat i, buf_type := type\<rparr>) of
        (rc, buf, k1) \<Rightarrow>
          if rc \<noteq> 0 then (Inl Can_not_query_buffer, k1)
          else
            (case k_mmap K k1 (buf_length buf) prot fd (m_offset buf) of
               (p, k2) \<Rightarrow>
                 if p = MAP_FAILED then (Inl Can_not_mmap_buffer, k2)
                 else if i = INT_MAX then (Inl Int_counter_overflow, k2)
                 else mmap_loop K fd type prot num (Suc i) (bufs(i \<mapsto> p)) k2))"
  by (subst mmap_loop.simps) simp

lemma mmap_loop_step:
  assumes "i < num"
    and "k_querybuf K k fd (zero_buffer\<lparr>buf_index := of_nat i, buf_type := type\<rparr>)
           = (rc, buf, k1)"
    and "k_mmap K k1 (buf_length buf) prot fd (m_offset buf) = (p, k2)"
  shows "mmap_loop K fd type prot num i bufs k =
           (if rc \<noteq> 0 then (Inl Can_not_query_buffer, k1)
            else if p = MAP_FAILED then (Inl Can_not_mmap_buffer, k2)
            else if i = INT_MAX then (Inl Int_counter_overflow, k2)
            else mmap_loop K fd type prot num (Suc i) (bufs(i \<mapsto> p)) k2)"
  using assms by (simp add: mmap_loop_unroll)

text \<open>The index passed to the kernel in round \<open>i\<close> is \<open>i\<close> itself.\<close>

lemma loop_index_exact: "i < unat (num :: u32) \<Longrightarrow> unat (of_nat i :: u32) = i"
proof -
  assume "i < unat num"
  moreover have "unat num < 2 ^ 32"
    using unsigned_less [of num] by simp
  ultimately show ?thesis
    by (simp add: unat_of_nat take_bit_nat_eq_self)
qed

text \<open>The loop from \<open>i\<close> writes no element below \<open>i\<close> and none at or beyond the bound.\<close>

lemma mmap_loop_frame:
  "mmap_loop K fd type prot num i bufs k = (Inr bufs', k') \<Longrightarrow> j < i \<or> num \<le> j
     \<Longrightarrow> bufs' j = bufs j"
proof (induction K fd type prot num i bufs k rule: mmap_loop.induct)
  case (1 K fd type prot num i bufs k)
  show ?case
  proof (cases "i < num")
    case False
    with "1.prems" show ?thesis by (simp add: mmap_loop_done)
  next
    case True
    obtain rc buf k1 where
      q: "k_querybuf K k fd (zero_buffer\<lparr>buf_index := of_nat i, buf_type := type\<rparr>)
            = (rc, buf, k1)"
      by (metis prod_cases3)
    obtain p k2 where m: "k_mmap K k1 (buf_length buf) prot fd (m_offset buf) = (p, k2)"
      by (metis surj_pair)
    from "1.prems"(1) mmap_loop_step [OF True q m, of bufs]
    have ok: "\<not> rc \<noteq> 0" "p \<noteq> MAP_FAILED" "i \<noteq> INT_MAX"
      and rest: "mmap_loop K fd type prot num (Suc i) (bufs(i \<mapsto> p)) k2 = (Inr bufs', k')"
      by (auto split: if_splits)
    from "1.prems"(2) True have j: "j < Suc i \<or> num \<le> j" "j \<noteq> i" by auto
    have "bufs' j = (bufs(i \<mapsto> p)) j"
      by (rule "1.IH" [OF True q [symmetric] refl ok(1) m [symmetric] ok(2) ok(3) rest j(1)])
    with j(2) show ?thesis by simp
  qed
qed

text \<open>
  The loop to \<open>num\<close> is the loop to any \<open>j\<close> up to \<open>num\<close>, followed, if that did not fail,
  by the loop from \<open>j\<close>: \<open>mmap_loop K fd type prot j 0 bufs k\<close> is the state of the run
  after its first \<open>j\<close> rounds.
\<close>

lemma mmap_loop_split:
  "i \<le> j \<Longrightarrow> j \<le> num \<Longrightarrow>
   mmap_loop K fd type prot num i bufs k =
     (case mmap_loop K fd type prot j i bufs k of
        (Inl e, k') \<Rightarrow> (Inl e, k')
      | (Inr bufs', k') \<Rightarrow> mmap_loop K fd type prot num j bufs' k')"
proof (induction K fd type prot j i bufs k rule: mmap_loop.induct)
  case (1 K fd type prot j i bufs k)
  show ?case
  proof (cases "i < j")
    case False
    with "1.prems" have "i = j" by simp
    then show ?thesis by (simp add: mmap_loop_done)
  next
    case True
    with "1.prems" have lt: "i < num" by simp
    obtain rc buf k1 where
      q: "k_querybuf K k fd (zero_buffer\<lparr>buf_index := of_nat i, buf_type := type\<rparr>)
            = (rc, buf, k1)"
      by (metis prod_cases3)
    obtain p k2 where m: "k_mmap K k1 (buf_length buf) prot fd (m_offset buf) = (p, k2)"
      by (metis surj_pair)
    show ?thesis
    proof (cases "rc = 0 \<and> p \<noteq> MAP_FAILED \<and> i \<noteq> INT_MAX")
      case False
      then show ?thesis
        by (auto simp: mmap_loop_step [OF lt q m] mmap_loop_step [OF True q m])
    next
      case ok: True
      then have nz: "\<not> rc \<noteq> 0" and pm: "p \<noteq> MAP_FAILED" and im: "i \<noteq> INT_MAX"
        by simp_all
      from True "1.prems" have le: "Suc i \<le> j" "j \<le> num" by simp_all
      have "mmap_loop K fd type prot num (Suc i) (bufs(i \<mapsto> p)) k2 =
         (case mmap_loop K fd type prot j (Suc i) (bufs(i \<mapsto> p)) k2 of
            (Inl e, k') \<Rightarrow> (Inl e, k')
          | (Inr bufs', k') \<Rightarrow> mmap_loop K fd type prot num j bufs' k')"
        by (rule "1.IH" [OF True q [symmetric] refl nz m [symmetric] pm im le])
      with ok show ?thesis
        by (simp add: mmap_loop_step [OF lt q m] mmap_loop_step [OF True q m])
    qed
  qed
qed

text \<open>What round \<open>j\<close> does to a run whose first \<open>j\<close> rounds succeeded.\<close>

lemma mmap_loop_round:
  assumes j: "j < num"
    and pre: "mmap_loop K fd type prot j 0 bufs k = (Inr bufs_j, k_j)"
    and q: "k_querybuf K k_j fd (zero_buffer\<lparr>buf_index := of_nat j, buf_type := type\<rparr>)
              = (rc, buf, k1)"
    and m: "k_mmap K k1 (buf_length buf) prot fd (m_offset buf) = (p, k2)"
  shows "mmap_loop K fd type prot num 0 bufs k =
           (if rc \<noteq> 0 then (Inl Can_not_query_buffer, k1)
            else if p = MAP_FAILED then (Inl Can_not_mmap_buffer, k2)
            else if j = INT_MAX then (Inl Int_counter_overflow, k2)
            else mmap_loop K fd type prot num (Suc j) (bufs_j(j \<mapsto> p)) k2)"
proof -
  from j have le: "0 \<le> j" "j \<le> num" by simp_all
  show ?thesis
    by (simp add: mmap_loop_split [OF le, of K fd type prot bufs k] pre
        mmap_loop_step [OF j q m])
qed

text \<open>
  A run that returns has, for every index below the bound, completed the rounds before
  it, queried the index with success, and mapped the queried length at the queried
  offset with success; the element of the array is the address of that mapping.
\<close>

lemma mmap_loop_entry:
  assumes run: "mmap_loop K fd type prot num 0 bufs k = (Inr bufs', k')"
    and i: "i < num"
  shows "\<exists>bufs_i k_i buf k1 p k2.
           mmap_loop K fd type prot i 0 bufs k = (Inr bufs_i, k_i)
         \<and> k_querybuf K k_i fd (zero_buffer\<lparr>buf_index := of_nat i, buf_type := type\<rparr>)
             = (0, buf, k1)
         \<and> k_mmap K k1 (buf_length buf) prot fd (m_offset buf) = (p, k2)
         \<and> p \<noteq> MAP_FAILED \<and> bufs' i = Some p
         \<and> (mmap_refuses_zero_length K \<longrightarrow> buf_length buf \<noteq> 0)"
proof -
  from i have le: "0 \<le> i" "i \<le> num" by simp_all
  from run mmap_loop_split [OF le, of K fd type prot bufs k]
  obtain bufs_i k_i where pre: "mmap_loop K fd type prot i 0 bufs k = (Inr bufs_i, k_i)"
    and rest: "mmap_loop K fd type prot num i bufs_i k_i = (Inr bufs', k')"
    by (auto split: prod.splits sum.splits)
  obtain rc buf k1 where
    q: "k_querybuf K k_i fd (zero_buffer\<lparr>buf_index := of_nat i, buf_type := type\<rparr>)
          = (rc, buf, k1)"
    by (metis prod_cases3)
  obtain p k2 where m: "k_mmap K k1 (buf_length buf) prot fd (m_offset buf) = (p, k2)"
    by (metis surj_pair)
  from rest mmap_loop_step [OF i q m, of bufs_i]
  have ok: "rc = 0" "p \<noteq> MAP_FAILED"
    and tail: "mmap_loop K fd type prot num (Suc i) (bufs_i(i \<mapsto> p)) k2 = (Inr bufs', k')"
    by (auto split: if_splits)
  from mmap_loop_frame [OF tail, of i] have entry: "bufs' i = Some p" by simp
  have "buf_length buf \<noteq> 0" if "mmap_refuses_zero_length K"
  proof
    assume "buf_length buf = 0"
    with that have "fst (k_mmap K k1 (buf_length buf) prot fd (m_offset buf)) = MAP_FAILED"
      by (simp add: mmap_refuses_zero_length_def)
    with m ok(2) show False by simp
  qed
  with pre q m ok entry show ?thesis by blast
qed

section \<open>The export loop\<close>

lemma export_loop_done: "\<not> i < num \<Longrightarrow> export_loop K fd type num i bufs k = (Inr bufs, k)"
  by (simp add: export_loop.simps)

lemma export_loop_unroll:
  "i < num \<Longrightarrow>
   export_loop K fd type num i bufs k =
     (case k_expbuf K k fd (zero_exportbuffer\<lparr>exp_index := of_nat i, exp_type := type\<rparr>) of
        (rc, ebuf, k1) \<Rightarrow>
          if rc \<noteq> 0 then (Inl Can_not_export_buffer, k1)
          else if i = INT_MAX then (Inl Int_counter_overflow, k1)
          else export_loop K fd type num (Suc i) (bufs(i \<mapsto> exp_fd ebuf)) k1)"
  by (subst export_loop.simps) simp

lemma export_loop_step:
  assumes "i < num"
    and "k_expbuf K k fd (zero_exportbuffer\<lparr>exp_index := of_nat i, exp_type := type\<rparr>)
           = (rc, ebuf, k1)"
  shows "export_loop K fd type num i bufs k =
           (if rc \<noteq> 0 then (Inl Can_not_export_buffer, k1)
            else if i = INT_MAX then (Inl Int_counter_overflow, k1)
            else export_loop K fd type num (Suc i) (bufs(i \<mapsto> exp_fd ebuf)) k1)"
  using assms by (simp add: export_loop_unroll)

lemma export_loop_frame:
  "export_loop K fd type num i bufs k = (Inr bufs', k') \<Longrightarrow> j < i \<or> num \<le> j
     \<Longrightarrow> bufs' j = bufs j"
proof (induction K fd type num i bufs k rule: export_loop.induct)
  case (1 K fd type num i bufs k)
  show ?case
  proof (cases "i < num")
    case False
    with "1.prems" show ?thesis by (simp add: export_loop_done)
  next
    case True
    obtain rc ebuf k1 where
      q: "k_expbuf K k fd (zero_exportbuffer\<lparr>exp_index := of_nat i, exp_type := type\<rparr>)
            = (rc, ebuf, k1)"
      by (metis prod_cases3)
    from "1.prems"(1) export_loop_step [OF True q, of bufs]
    have ok: "\<not> rc \<noteq> 0" "i \<noteq> INT_MAX"
      and rest: "export_loop K fd type num (Suc i) (bufs(i \<mapsto> exp_fd ebuf)) k1 = (Inr bufs', k')"
      by (auto split: if_splits)
    from "1.prems"(2) True have j: "j < Suc i \<or> num \<le> j" "j \<noteq> i" by auto
    have "bufs' j = (bufs(i \<mapsto> exp_fd ebuf)) j"
      by (rule "1.IH" [OF True q [symmetric] refl ok rest j(1)])
    with j(2) show ?thesis by simp
  qed
qed

lemma export_loop_split:
  "i \<le> j \<Longrightarrow> j \<le> num \<Longrightarrow>
   export_loop K fd type num i bufs k =
     (case export_loop K fd type j i bufs k of
        (Inl e, k') \<Rightarrow> (Inl e, k')
      | (Inr bufs', k') \<Rightarrow> export_loop K fd type num j bufs' k')"
proof (induction K fd type j i bufs k rule: export_loop.induct)
  case (1 K fd type j i bufs k)
  show ?case
  proof (cases "i < j")
    case False
    with "1.prems" have "i = j" by simp
    then show ?thesis by (simp add: export_loop_done)
  next
    case True
    with "1.prems" have lt: "i < num" by simp
    obtain rc ebuf k1 where
      q: "k_expbuf K k fd (zero_exportbuffer\<lparr>exp_index := of_nat i, exp_type := type\<rparr>)
            = (rc, ebuf, k1)"
      by (metis prod_cases3)
    show ?thesis
    proof (cases "rc = 0 \<and> i \<noteq> INT_MAX")
      case False
      then show ?thesis
        by (auto simp: export_loop_step [OF lt q] export_loop_step [OF True q])
    next
      case ok: True
      then have nz: "\<not> rc \<noteq> 0" and im: "i \<noteq> INT_MAX"
        by simp_all
      from True "1.prems" have le: "Suc i \<le> j" "j \<le> num" by simp_all
      have "export_loop K fd type num (Suc i) (bufs(i \<mapsto> exp_fd ebuf)) k1 =
         (case export_loop K fd type j (Suc i) (bufs(i \<mapsto> exp_fd ebuf)) k1 of
            (Inl e, k') \<Rightarrow> (Inl e, k')
          | (Inr bufs', k') \<Rightarrow> export_loop K fd type num j bufs' k')"
        by (rule "1.IH" [OF True q [symmetric] refl nz im le])
      with ok show ?thesis
        by (simp add: export_loop_step [OF lt q] export_loop_step [OF True q])
    qed
  qed
qed

lemma export_loop_entry:
  assumes run: "export_loop K fd type num 0 bufs k = (Inr bufs', k')"
    and i: "i < num"
  shows "\<exists>bufs_i k_i ebuf k1.
           export_loop K fd type i 0 bufs k = (Inr bufs_i, k_i)
         \<and> k_expbuf K k_i fd (zero_exportbuffer\<lparr>exp_index := of_nat i, exp_type := type\<rparr>)
             = (0, ebuf, k1)
         \<and> bufs' i = Some (exp_fd ebuf)"
proof -
  from i have le: "0 \<le> i" "i \<le> num" by simp_all
  from run export_loop_split [OF le, of K fd type bufs k]
  obtain bufs_i k_i where pre: "export_loop K fd type i 0 bufs k = (Inr bufs_i, k_i)"
    and rest: "export_loop K fd type num i bufs_i k_i = (Inr bufs', k')"
    by (auto split: prod.splits sum.splits)
  obtain rc ebuf k1 where
    q: "k_expbuf K k_i fd (zero_exportbuffer\<lparr>exp_index := of_nat i, exp_type := type\<rparr>)
          = (rc, ebuf, k1)"
    by (metis prod_cases3)
  from rest export_loop_step [OF i q, of bufs_i]
  have ok: "rc = 0"
    and tail: "export_loop K fd type num (Suc i) (bufs_i(i \<mapsto> exp_fd ebuf)) k1 = (Inr bufs', k')"
    by (auto split: if_splits)
  from export_loop_frame [OF tail, of i] have "bufs' i = Some (exp_fd ebuf)" by simp
  with pre q ok show ?thesis by blast
qed

section \<open>Runs on the simulated driver\<close>

lemma sim_mmap_two:
  "v4l2_buffers_mmap sim_kernel sim2 3 V4L2_BUF_TYPE_VIDEO_CAPTURE 2 Map.empty 3
     = (Inr [0 \<mapsto> 0x7F0000000000, 1 \<mapsto> 0x7F0000001000],
        sim2\<lparr>sim_room := 2,
             sim_maps := [(0x7F0000000000, 4096), (0x7F0000001000, 4096)]\<rparr>)"
  by (simp add: v4l2_buffers_mmap_def mmap_loop_unroll mmap_loop_done sim_defs)

lemma sim_export_two:
  "v4l2_buffers_export sim_kernel sim2 3 V4L2_BUF_TYPE_VIDEO_CAPTURE 2 Map.empty
     = (Inr [0 \<mapsto> 10, 1 \<mapsto> 11], sim2)"
  by (simp add: v4l2_buffers_export_def export_loop_unroll export_loop_done sim_defs)

section \<open>Mapping and exporting the pool\<close>

text \<open>
  C3. The claim: when one mapping fails, the mappings established earlier in the call are
  unmapped before the error propagates, so that no partial pool is left behind. The
  function does not unwind: it reports the failure with \<^verbatim>\<open>error\<close>, which terminates the
  process, and the module has no call of \<^verbatim>\<open>munmap\<close>. On the simulated device with room
  for one mapping, the call for two buffers maps buffer 0, fails to map buffer 1 and
  terminates with \<open>MapFailed\<close> while the mapping of buffer 0 is still established.
\<close>

theorem mmap_unwinding_counterexample:
  "v4l2_buffers_mmap sim_kernel (sim2\<lparr>sim_room := 1\<rparr>) 3 V4L2_BUF_TYPE_VIDEO_CAPTURE 2
       Map.empty 3
     = (Inl Can_not_mmap_buffer, sim2\<lparr>sim_room := 0, sim_maps := [(0x7F0000000000, 4096)]\<rparr>)
   \<and> spec_error_of Can_not_mmap_buffer = Some MapFailed
   \<and> sim_maps (sim2\<lparr>sim_room := 1\<rparr>) = []
   \<and> sim_maps (snd (v4l2_buffers_mmap sim_kernel (sim2\<lparr>sim_room := 1\<rparr>) 3
        V4L2_BUF_TYPE_VIDEO_CAPTURE 2 Map.empty 3)) = [(0x7F0000000000, 4096)]"
  by (simp add: v4l2_buffers_mmap_def mmap_loop_unroll mmap_loop_done sim_defs)

text \<open>
  C3, amended. When the mapping of some index \<open>j\<close> below the count fails, after the rounds
  before it have succeeded and the index has been queried, the function fails with
  "Can not mmap buffer", the specification's \<open>MapFailed\<close>, by terminating the process:
  nothing is returned to the caller, and the function makes no further call, so the
  kernel is in the state in which the failed \<^verbatim>\<open>mmap\<close> left it; the mappings established
  earlier in the call are not unmapped by the function and end with the process.
\<close>

theorem mmap_failure_terminates:
  assumes "j < unat num"
    and "mmap_loop K fd type prot j 0 bufs k = (Inr bufs_j, k_j)"
    and "k_querybuf K k_j fd (zero_buffer\<lparr>buf_index := of_nat j, buf_type := type\<rparr>)
           = (0, buf, k1)"
    and "k_mmap K k1 (buf_length buf) prot fd (m_offset buf) = (MAP_FAILED, k2)"
  shows "v4l2_buffers_mmap K k fd type num bufs prot = (Inl Can_not_mmap_buffer, k2)
         \<and> spec_error_of Can_not_mmap_buffer = Some MapFailed"
  using mmap_loop_round [OF assms] by (simp add: v4l2_buffers_mmap_def)

theorem mmap_failure_terminates_witness:
  "(1::nat) < unat (2::u32)
   \<and> mmap_loop sim_kernel 3 V4L2_BUF_TYPE_VIDEO_CAPTURE 3 1 0 Map.empty (sim2\<lparr>sim_room := 1\<rparr>)
       = (Inr [0 \<mapsto> 0x7F0000000000],
          sim2\<lparr>sim_room := 0, sim_maps := [(0x7F0000000000, 4096)]\<rparr>)
   \<and> k_querybuf sim_kernel (sim2\<lparr>sim_room := 0, sim_maps := [(0x7F0000000000, 4096)]\<rparr>) 3
        (zero_buffer\<lparr>buf_index := of_nat 1, buf_type := V4L2_BUF_TYPE_VIDEO_CAPTURE\<rparr>)
       = (0, zero_buffer\<lparr>buf_index := 1, buf_type := V4L2_BUF_TYPE_VIDEO_CAPTURE,
                         buf_memory := V4L2_MEMORY_MMAP, buf_length := 4096,
                         m_offset := 4096\<rparr>,
          sim2\<lparr>sim_room := 0, sim_maps := [(0x7F0000000000, 4096)]\<rparr>)
   \<and> k_mmap sim_kernel (sim2\<lparr>sim_room := 0, sim_maps := [(0x7F0000000000, 4096)]\<rparr>)
        4096 3 3 4096
       = (MAP_FAILED, sim2\<lparr>sim_room := 0, sim_maps := [(0x7F0000000000, 4096)]\<rparr>)
   \<and> v4l2_buffers_mmap sim_kernel (sim2\<lparr>sim_room := 1\<rparr>) 3 V4L2_BUF_TYPE_VIDEO_CAPTURE 2
        Map.empty 3
       = (Inl Can_not_mmap_buffer,
          sim2\<lparr>sim_room := 0, sim_maps := [(0x7F0000000000, 4096)]\<rparr>)
   \<and> spec_error_of Can_not_mmap_buffer = Some MapFailed"
proof -
  let ?s = "sim2\<lparr>sim_room := 0, sim_maps := [(0x7F0000000000, 4096)]\<rparr>"
  let ?b = "zero_buffer\<lparr>buf_index := 1, buf_type := V4L2_BUF_TYPE_VIDEO_CAPTURE,
                         buf_memory := V4L2_MEMORY_MMAP, buf_length := 4096,
                         m_offset := 4096\<rparr>"
  have below: "(1::nat) < unat (2::u32)"
    by simp
  have first: "mmap_loop sim_kernel 3 V4L2_BUF_TYPE_VIDEO_CAPTURE 3 1 0 Map.empty
        (sim2\<lparr>sim_room := 1\<rparr>) = (Inr [0 \<mapsto> 0x7F0000000000], ?s)"
    by (simp add: mmap_loop_unroll mmap_loop_done sim_defs)
  have query: "k_querybuf sim_kernel ?s 3
        (zero_buffer\<lparr>buf_index := of_nat 1, buf_type := V4L2_BUF_TYPE_VIDEO_CAPTURE\<rparr>)
       = (0, ?b, ?s)"
    by (simp add: sim_defs)
  have refused: "k_mmap sim_kernel ?s (buf_length ?b) 3 3 (m_offset ?b) = (MAP_FAILED, ?s)"
    by (simp add: sim_defs)
  from mmap_failure_terminates [OF below first query refused] below first query refused
  show ?thesis
    by (simp add: zero_buffer_def)
qed

text \<open>
  The converse of the two entry lemmas: a run that the kernel serves, with a count that
  the counter can reach, returns.
\<close>

lemma INT_MAX_bound: "((n::nat) \<le> INT_MAX) = (n < 2 ^ 31)"
  unfolding INT_MAX_def by auto

lemma even_address_maps: "(2 * x :: addr) \<noteq> MAP_FAILED"
proof
  assume "2 * x = MAP_FAILED"
  then have "even (- 1 :: addr)"
    unfolding MAP_FAILED_def by (metis dvd_triv_left)
  then show False by simp
qed

lemma export_loop_round:
  assumes j: "j < num"
    and pre: "export_loop K fd type j 0 bufs k = (Inr bufs_j, k_j)"
    and q: "k_expbuf K k_j fd (zero_exportbuffer\<lparr>exp_index := of_nat j, exp_type := type\<rparr>)
              = (rc, ebuf, k1)"
  shows "export_loop K fd type num 0 bufs k =
           (if rc \<noteq> 0 then (Inl Can_not_export_buffer, k1)
            else if j = INT_MAX then (Inl Int_counter_overflow, k1)
            else export_loop K fd type num (Suc j) (bufs_j(j \<mapsto> exp_fd ebuf)) k1)"
proof -
  from j have le: "0 \<le> j" "j \<le> num" by simp_all
  show ?thesis
    by (simp add: export_loop_split [OF le, of K fd type bufs k] pre export_loop_step [OF j q])
qed

lemma mmap_loop_produces:
  assumes served: "every_mapping_succeeds K k fd type num bufs prot"
  shows "n \<le> unat num \<Longrightarrow> n \<le> INT_MAX
    \<Longrightarrow> \<exists>bufs_n k_n. mmap_loop K fd type prot n 0 bufs k = (Inr bufs_n, k_n)"
proof (induction n)
  case 0
  show ?case by (simp add: mmap_loop_done)
next
  case (Suc n)
  then obtain bufs_n k_n where pre: "mmap_loop K fd type prot n 0 bufs k = (Inr bufs_n, k_n)"
    by auto
  from Suc.prems have lt: "n < unat num" by simp
  with served pre obtain buf k1 p k2 where
    q: "k_querybuf K k_n fd (zero_buffer\<lparr>buf_index := of_nat n, buf_type := type\<rparr>)
          = (0, buf, k1)"
    and m: "k_mmap K k1 (buf_length buf) prot fd (m_offset buf) = (p, k2)"
    and p: "p \<noteq> MAP_FAILED"
    unfolding every_mapping_succeeds_def by blast
  from Suc.prems have "n \<noteq> INT_MAX" by simp
  with mmap_loop_round [OF lessI pre q m] p show ?case
    by (simp add: mmap_loop_done)
qed

lemma mmap_loop_returns_served:
  assumes run: "mmap_loop K fd type prot (unat num) 0 bufs k = (Inr bufs', k')"
  shows "unat num \<le> INT_MAX \<and> every_mapping_succeeds K k fd type num bufs prot"
proof
  show "unat num \<le> INT_MAX"
  proof (rule ccontr)
    assume "\<not> unat num \<le> INT_MAX"
    then have lt: "INT_MAX < unat num" by simp
    from mmap_loop_entry [OF run lt] obtain bufs_i k_i buf k1 p k2 where
      pre: "mmap_loop K fd type prot INT_MAX 0 bufs k = (Inr bufs_i, k_i)"
      and q: "k_querybuf K k_i fd (zero_buffer\<lparr>buf_index := of_nat INT_MAX, buf_type := type\<rparr>)
          = (0, buf, k1)"
      and m: "k_mmap K k1 (buf_length buf) prot fd (m_offset buf) = (p, k2)"
      and p: "p \<noteq> MAP_FAILED"
      by blast
    from mmap_loop_round [OF lt pre q m] p run show False
      by simp
  qed
  show "every_mapping_succeeds K k fd type num bufs prot"
    unfolding every_mapping_succeeds_def
  proof (intro allI impI)
    fix i bufs_i k_i
    assume i: "i < unat num"
      and pre: "mmap_loop K fd type prot i 0 bufs k = (Inr bufs_i, k_i)"
    from mmap_loop_entry [OF run i] pre
    show "\<exists>buf k1 p k2.
           k_querybuf K k_i fd (zero_buffer\<lparr>buf_index := of_nat i, buf_type := type\<rparr>)
             = (0, buf, k1)
         \<and> k_mmap K k1 (buf_length buf) prot fd (m_offset buf) = (p, k2)
         \<and> p \<noteq> MAP_FAILED"
      by auto
  qed
qed

lemma export_loop_produces:
  assumes served: "every_export_succeeds K k fd type num fds"
  shows "n \<le> unat num \<Longrightarrow> n \<le> INT_MAX
    \<Longrightarrow> \<exists>fds_n k_n. export_loop K fd type n 0 fds k = (Inr fds_n, k_n)"
proof (induction n)
  case 0
  show ?case by (simp add: export_loop_done)
next
  case (Suc n)
  then obtain fds_n k_n where pre: "export_loop K fd type n 0 fds k = (Inr fds_n, k_n)"
    by auto
  from Suc.prems have lt: "n < unat num" by simp
  with served pre obtain ebuf k1 where
    q: "k_expbuf K k_n fd (zero_exportbuffer\<lparr>exp_index := of_nat n, exp_type := type\<rparr>)
          = (0, ebuf, k1)"
    unfolding every_export_succeeds_def by blast
  from Suc.prems have "n \<noteq> INT_MAX" by simp
  with export_loop_round [OF lessI pre q] show ?case
    by (simp add: export_loop_done)
qed

lemma export_loop_returns_served:
  assumes run: "export_loop K fd type (unat num) 0 fds k = (Inr fds', k')"
  shows "unat num \<le> INT_MAX \<and> every_export_succeeds K k fd type num fds"
proof
  show "unat num \<le> INT_MAX"
  proof (rule ccontr)
    assume "\<not> unat num \<le> INT_MAX"
    then have lt: "INT_MAX < unat num" by simp
    from export_loop_entry [OF run lt] obtain fds_i k_i ebuf k1 where
      pre: "export_loop K fd type INT_MAX 0 fds k = (Inr fds_i, k_i)"
      and q: "k_expbuf K k_i fd
            (zero_exportbuffer\<lparr>exp_index := of_nat INT_MAX, exp_type := type\<rparr>)
          = (0, ebuf, k1)"
      by blast
    from export_loop_round [OF lt pre q] run show False
      by simp
  qed
  show "every_export_succeeds K k fd type num fds"
    unfolding every_export_succeeds_def
  proof (intro allI impI)
    fix i fds_i k_i
    assume i: "i < unat num"
      and pre: "export_loop K fd type i 0 fds k = (Inr fds_i, k_i)"
    from export_loop_entry [OF run i] pre
    show "\<exists>ebuf k1.
           k_expbuf K k_i fd (zero_exportbuffer\<lparr>exp_index := of_nat i, exp_type := type\<rparr>)
             = (0, ebuf, k1)"
      by auto
  qed
qed

lemma serving_mmap_loop_overflows:
  "i \<le> INT_MAX \<Longrightarrow> INT_MAX < num
   \<Longrightarrow> fst (mmap_loop serving_kernel fd type prot num i bufs k) = Inl Int_counter_overflow"
proof (induction "INT_MAX - i" arbitrary: i bufs k)
  case 0
  then have "i = INT_MAX" "i < num" by simp_all
  then show ?case
    by (simp add: mmap_loop_unroll serving_kernel_def even_address_maps)
next
  case (Suc d)
  then have "i \<noteq> INT_MAX" "i < num" "Suc i \<le> INT_MAX" "d = INT_MAX - Suc i"
    by simp_all
  with Suc.hyps(1) [of "Suc i"] Suc.prems(2) show ?case
    by (simp add: mmap_loop_unroll serving_kernel_def even_address_maps)
qed

lemma serving_export_loop_overflows:
  "i \<le> INT_MAX \<Longrightarrow> INT_MAX < num
   \<Longrightarrow> fst (export_loop serving_kernel fd type num i fds k) = Inl Int_counter_overflow"
proof (induction "INT_MAX - i" arbitrary: i fds k)
  case 0
  then have "i = INT_MAX" "i < num" by simp_all
  then show ?case
    by (simp add: export_loop_unroll serving_kernel_def)
next
  case (Suc d)
  then have "i \<noteq> INT_MAX" "i < num" "Suc i \<le> INT_MAX" "d = INT_MAX - Suc i"
    by simp_all
  with Suc.hyps(1) [of "Suc i"] Suc.prems(2) show ?case
    by (simp add: export_loop_unroll serving_kernel_def)
qed

text \<open>
  C5. The claim: for every count N from 1 on, against a driver that grants exactly N, the
  pool has exactly N entries, one per index, each with nonzero length. A grant of N does
  not make the mappings succeed: the simulated device with room for one mapping grants
  2 buffers, and mapping them yields no array at all. The functions neither test nor
  keep a length: with a kernel whose \<^verbatim>\<open>mmap\<close> does not look at the length and a buffer
  whose queried length is 0, the call for one buffer succeeds with an entry of length 0;
  and the export of that buffer succeeds on the simulated device itself, since no length
  is asked for on that path. And the counter of the loops is an \<^verbatim>\<open>int\<close>: for a count of
  \<open>2 ^ 31\<close>, on a kernel that serves every request, both loops reach the overflow of the
  counter instead of returning.
\<close>

theorem pool_entries_counterexample:
  "v4l2_buffers_request sim_kernel (sim0\<lparr>sim_room := 1\<rparr>) 3 V4L2_BUF_TYPE_VIDEO_CAPTURE 2
       V4L2_MEMORY_MMAP
     = (Inr 2, sim2\<lparr>sim_room := 1\<rparr>)
   \<and> fst (v4l2_buffers_mmap sim_kernel (sim2\<lparr>sim_room := 1\<rparr>) 3 V4L2_BUF_TYPE_VIDEO_CAPTURE 2
        Map.empty 3) = Inl Can_not_mmap_buffer
   \<and> v4l2_buffers_request lax_kernel (sim0\<lparr>sim_size := 0\<rparr>) 3 V4L2_BUF_TYPE_VIDEO_CAPTURE 1
       V4L2_MEMORY_MMAP
     = (Inr 1, sim0\<lparr>sim_size := 0, sim_bufs := [Free]\<rparr>)
   \<and> fst (v4l2_buffers_mmap lax_kernel (sim0\<lparr>sim_size := 0, sim_bufs := [Free]\<rparr>) 3
        V4L2_BUF_TYPE_VIDEO_CAPTURE 1 Map.empty 3) = Inr [0 \<mapsto> 0x7F0000000000]
   \<and> k_querybuf lax_kernel (sim0\<lparr>sim_size := 0, sim_bufs := [Free]\<rparr>) 3
        (zero_buffer\<lparr>buf_index := 0, buf_type := V4L2_BUF_TYPE_VIDEO_CAPTURE\<rparr>)
     = (0, zero_buffer\<lparr>buf_index := 0, buf_type := V4L2_BUF_TYPE_VIDEO_CAPTURE,
                       buf_memory := V4L2_MEMORY_MMAP, buf_length := 0, m_offset := 0\<rparr>,
        sim0\<lparr>sim_size := 0, sim_bufs := [Free]\<rparr>)
   \<and> fst (v4l2_buffers_export sim_kernel (sim0\<lparr>sim_size := 0, sim_bufs := [Free]\<rparr>) 3
        V4L2_BUF_TYPE_VIDEO_CAPTURE 1 Map.empty) = Inr [0 \<mapsto> 10]
   \<and> fst (v4l2_buffers_mmap serving_kernel () 3 V4L2_BUF_TYPE_VIDEO_CAPTURE 0x80000000
        Map.empty 3) = Inl Int_counter_overflow
   \<and> fst (v4l2_buffers_export serving_kernel () 3 V4L2_BUF_TYPE_VIDEO_CAPTURE 0x80000000
        Map.empty) = Inl Int_counter_overflow"
proof -
  have runs:
    "v4l2_buffers_request sim_kernel (sim0\<lparr>sim_room := 1\<rparr>) 3 V4L2_BUF_TYPE_VIDEO_CAPTURE 2
        V4L2_MEMORY_MMAP = (Inr 2, sim2\<lparr>sim_room := 1\<rparr>)"
    "fst (v4l2_buffers_mmap sim_kernel (sim2\<lparr>sim_room := 1\<rparr>) 3 V4L2_BUF_TYPE_VIDEO_CAPTURE 2
        Map.empty 3) = Inl Can_not_mmap_buffer"
    "v4l2_buffers_request lax_kernel (sim0\<lparr>sim_size := 0\<rparr>) 3 V4L2_BUF_TYPE_VIDEO_CAPTURE 1
        V4L2_MEMORY_MMAP = (Inr 1, sim0\<lparr>sim_size := 0, sim_bufs := [Free]\<rparr>)"
    "fst (v4l2_buffers_mmap lax_kernel (sim0\<lparr>sim_size := 0, sim_bufs := [Free]\<rparr>) 3
        V4L2_BUF_TYPE_VIDEO_CAPTURE 1 Map.empty 3) = Inr [0 \<mapsto> 0x7F0000000000]"
    "k_querybuf lax_kernel (sim0\<lparr>sim_size := 0, sim_bufs := [Free]\<rparr>) 3
        (zero_buffer\<lparr>buf_index := 0, buf_type := V4L2_BUF_TYPE_VIDEO_CAPTURE\<rparr>)
     = (0, zero_buffer\<lparr>buf_index := 0, buf_type := V4L2_BUF_TYPE_VIDEO_CAPTURE,
                       buf_memory := V4L2_MEMORY_MMAP, buf_length := 0, m_offset := 0\<rparr>,
        sim0\<lparr>sim_size := 0, sim_bufs := [Free]\<rparr>)"
    "fst (v4l2_buffers_export sim_kernel (sim0\<lparr>sim_size := 0, sim_bufs := [Free]\<rparr>) 3
        V4L2_BUF_TYPE_VIDEO_CAPTURE 1 Map.empty) = Inr [0 \<mapsto> 10]"
    by (simp_all add: v4l2_buffers_request_def v4l2_buffers_mmap_def mmap_loop_unroll
        mmap_loop_done v4l2_buffers_export_def export_loop_unroll export_loop_done
        lax_kernel_def sim_defs replicate_two_four)
  have count: "unat (0x80000000 :: u32) = Suc INT_MAX"
    by (simp add: INT_MAX_def)
  have over:
    "fst (v4l2_buffers_mmap serving_kernel () 3 V4L2_BUF_TYPE_VIDEO_CAPTURE 0x80000000
        Map.empty 3) = Inl Int_counter_overflow"
    "fst (v4l2_buffers_export serving_kernel () 3 V4L2_BUF_TYPE_VIDEO_CAPTURE 0x80000000
        Map.empty) = Inl Int_counter_overflow"
    unfolding v4l2_buffers_mmap_def v4l2_buffers_export_def count
    by (rule serving_mmap_loop_overflows serving_export_loop_overflows; simp)+
  from runs over show ?thesis
    by (intro conjI)
qed

text \<open>
  C5, amended. For every count \<open>num\<close> up to \<^verbatim>\<open>INT_MAX\<close> (below \<open>2 ^ 31\<close>), when every
  query and every mapping of the run succeeds, \<^verbatim>\<open>v4l2_buffers_mmap\<close> returns, and the
  array then holds exactly \<open>num\<close> new entries, one per index below \<open>num\<close>, and is
  unchanged elsewhere: the entry of index \<open>i\<close> is the address at which, after the rounds
  before it, the length queried for index \<open>i\<close> was mapped at the offset queried for it,
  and that length is not zero provided the kernel's \<^verbatim>\<open>mmap\<close> refuses a zero length (the
  function itself tests no length and keeps none). In the same way, when every export
  of the run succeeds, \<^verbatim>\<open>v4l2_buffers_export\<close> returns, and the array then holds exactly
  \<open>num\<close> new entries, the entry of index \<open>i\<close> being the file descriptor exported for
  index \<open>i\<close>; an exported entry has no length. Conversely the two functions return
  only then: a run that returns had a count below \<open>2 ^ 31\<close> and every call served.
\<close>

theorem pool_entries:
  "(unat num < 2 ^ 31 \<and> every_mapping_succeeds K k fd type num bufs prot \<longrightarrow>
      (\<exists>array k_end.
         v4l2_buffers_mmap K k fd type num bufs prot = (Inr array, k_end)
       \<and> (\<forall>i<unat num. \<exists>bufs_i k_i buf k1 p k2.
             mmap_loop K fd type prot i 0 bufs k = (Inr bufs_i, k_i)
           \<and> k_querybuf K k_i fd (zero_buffer\<lparr>buf_index := of_nat i, buf_type := type\<rparr>)
               = (0, buf, k1)
           \<and> k_mmap K k1 (buf_length buf) prot fd (m_offset buf) = (p, k2)
           \<and> p \<noteq> MAP_FAILED \<and> array i = Some p
           \<and> (mmap_refuses_zero_length K \<longrightarrow> buf_length buf \<noteq> 0))
       \<and> (\<forall>i\<ge>unat num. array i = bufs i)))
   \<and> (v4l2_buffers_mmap K k fd type num bufs prot = (Inr bufs', k') \<longrightarrow>
      unat num < 2 ^ 31 \<and> every_mapping_succeeds K k fd type num bufs prot
      \<and> (\<forall>i<unat num. \<exists>bufs_i k_i buf k1 p k2.
           mmap_loop K fd type prot i 0 bufs k = (Inr bufs_i, k_i)
         \<and> k_querybuf K k_i fd (zero_buffer\<lparr>buf_index := of_nat i, buf_type := type\<rparr>)
             = (0, buf, k1)
         \<and> k_mmap K k1 (buf_length buf) prot fd (m_offset buf) = (p, k2)
         \<and> p \<noteq> MAP_FAILED \<and> bufs' i = Some p
         \<and> (mmap_refuses_zero_length K \<longrightarrow> buf_length buf \<noteq> 0))
      \<and> (\<forall>i\<ge>unat num. bufs' i = bufs i))
   \<and> (unat num < 2 ^ 31 \<and> every_export_succeeds K k fd type num fds \<longrightarrow>
      (\<exists>array k_end.
         v4l2_buffers_export K k fd type num fds = (Inr array, k_end)
       \<and> (\<forall>i<unat num. \<exists>fds_i k_i ebuf k1.
             export_loop K fd type i 0 fds k = (Inr fds_i, k_i)
           \<and> k_expbuf K k_i fd (zero_exportbuffer\<lparr>exp_index := of_nat i, exp_type := type\<rparr>)
               = (0, ebuf, k1)
           \<and> array i = Some (exp_fd ebuf))
       \<and> (\<forall>i\<ge>unat num. array i = fds i)))
   \<and> (v4l2_buffers_export K k fd type num fds = (Inr fds', k'') \<longrightarrow>
      unat num < 2 ^ 31 \<and> every_export_succeeds K k fd type num fds
      \<and> (\<forall>i<unat num. \<exists>fds_i k_i ebuf k1.
           export_loop K fd type i 0 fds k = (Inr fds_i, k_i)
         \<and> k_expbuf K k_i fd (zero_exportbuffer\<lparr>exp_index := of_nat i, exp_type := type\<rparr>)
             = (0, ebuf, k1)
         \<and> fds' i = Some (exp_fd ebuf))
      \<and> (\<forall>i\<ge>unat num. fds' i = fds i))"
proof -
  have mapped: "unat num < 2 ^ 31 \<and> every_mapping_succeeds K k fd type num bufs prot
      \<and> (\<forall>i<unat num. \<exists>bufs_i k_i buf k1 p k2.
           mmap_loop K fd type prot i 0 bufs k = (Inr bufs_i, k_i)
         \<and> k_querybuf K k_i fd (zero_buffer\<lparr>buf_index := of_nat i, buf_type := type\<rparr>)
             = (0, buf, k1)
         \<and> k_mmap K k1 (buf_length buf) prot fd (m_offset buf) = (p, k2)
         \<and> p \<noteq> MAP_FAILED \<and> array i = Some p
         \<and> (mmap_refuses_zero_length K \<longrightarrow> buf_length buf \<noteq> 0))
      \<and> (\<forall>i\<ge>unat num. array i = bufs i)"
    if "v4l2_buffers_mmap K k fd type num bufs prot = (Inr array, k_end)" for array k_end
  proof -
    from that have loop: "mmap_loop K fd type prot (unat num) 0 bufs k = (Inr array, k_end)"
      by (simp add: v4l2_buffers_mmap_def)
    from mmap_loop_returns_served [OF loop]
    have "unat num < 2 ^ 31" "every_mapping_succeeds K k fd type num bufs prot"
      by (simp_all add: INT_MAX_bound)
    moreover have "\<forall>i\<ge>unat num. array i = bufs i"
      using mmap_loop_frame [OF loop] by simp
    ultimately show ?thesis
      using mmap_loop_entry [OF loop] by simp
  qed
  have exported: "unat num < 2 ^ 31 \<and> every_export_succeeds K k fd type num fds
      \<and> (\<forall>i<unat num. \<exists>fds_i k_i ebuf k1.
           export_loop K fd type i 0 fds k = (Inr fds_i, k_i)
         \<and> k_expbuf K k_i fd (zero_exportbuffer\<lparr>exp_index := of_nat i, exp_type := type\<rparr>)
             = (0, ebuf, k1)
         \<and> array i = Some (exp_fd ebuf))
      \<and> (\<forall>i\<ge>unat num. array i = fds i)"
    if "v4l2_buffers_export K k fd type num fds = (Inr array, k_end)" for array k_end
  proof -
    from that have loop: "export_loop K fd type (unat num) 0 fds k = (Inr array, k_end)"
      by (simp add: v4l2_buffers_export_def)
    from export_loop_returns_served [OF loop]
    have "unat num < 2 ^ 31" "every_export_succeeds K k fd type num fds"
      by (simp_all add: INT_MAX_bound)
    moreover have "\<forall>i\<ge>unat num. array i = fds i"
      using export_loop_frame [OF loop] by simp
    ultimately show ?thesis
      using export_loop_entry [OF loop] by simp
  qed
  have maps: "\<exists>array k_end. v4l2_buffers_mmap K k fd type num bufs prot = (Inr array, k_end)"
    if "unat num < 2 ^ 31" "every_mapping_succeeds K k fd type num bufs prot"
    using mmap_loop_produces [OF that(2) order_refl] that(1)
    by (simp add: v4l2_buffers_mmap_def INT_MAX_bound)
  have exports: "\<exists>array k_end. v4l2_buffers_export K k fd type num fds = (Inr array, k_end)"
    if "unat num < 2 ^ 31" "every_export_succeeds K k fd type num fds"
    using export_loop_produces [OF that(2) order_refl] that(1)
    by (simp add: v4l2_buffers_export_def INT_MAX_bound)
  show ?thesis
  proof (intro conjI impI)
    assume "unat num < 2 ^ 31 \<and> every_mapping_succeeds K k fd type num bufs prot"
    then obtain array k_end where
      "v4l2_buffers_mmap K k fd type num bufs prot = (Inr array, k_end)"
      using maps by blast
    with mapped [OF this] show "\<exists>array k_end.
         v4l2_buffers_mmap K k fd type num bufs prot = (Inr array, k_end)
       \<and> (\<forall>i<unat num. \<exists>bufs_i k_i buf k1 p k2.
             mmap_loop K fd type prot i 0 bufs k = (Inr bufs_i, k_i)
           \<and> k_querybuf K k_i fd (zero_buffer\<lparr>buf_index := of_nat i, buf_type := type\<rparr>)
               = (0, buf, k1)
           \<and> k_mmap K k1 (buf_length buf) prot fd (m_offset buf) = (p, k2)
           \<and> p \<noteq> MAP_FAILED \<and> array i = Some p
           \<and> (mmap_refuses_zero_length K \<longrightarrow> buf_length buf \<noteq> 0))
       \<and> (\<forall>i\<ge>unat num. array i = bufs i)"
      by blast
  next
    assume "unat num < 2 ^ 31 \<and> every_export_succeeds K k fd type num fds"
    then obtain array k_end where
      "v4l2_buffers_export K k fd type num fds = (Inr array, k_end)"
      using exports by blast
    with exported [OF this] show "\<exists>array k_end.
         v4l2_buffers_export K k fd type num fds = (Inr array, k_end)
       \<and> (\<forall>i<unat num. \<exists>fds_i k_i ebuf k1.
             export_loop K fd type i 0 fds k = (Inr fds_i, k_i)
           \<and> k_expbuf K k_i fd (zero_exportbuffer\<lparr>exp_index := of_nat i, exp_type := type\<rparr>)
               = (0, ebuf, k1)
           \<and> array i = Some (exp_fd ebuf))
       \<and> (\<forall>i\<ge>unat num. array i = fds i)"
      by blast
  qed (use mapped [of bufs' k'] exported [of fds' k''] in simp_all)
qed

lemma sim_serves_mapping:
  "every_mapping_succeeds sim_kernel sim2 3 V4L2_BUF_TYPE_VIDEO_CAPTURE 2 Map.empty 3"
  unfolding every_mapping_succeeds_def
proof (intro allI impI)
  fix i bufs_i k_i
  assume i: "i < unat (2::u32)"
    and pre: "mmap_loop sim_kernel 3 V4L2_BUF_TYPE_VIDEO_CAPTURE 3 i 0 Map.empty sim2
                = (Inr bufs_i, k_i)"
  from i consider "i = 0" | "i = 1"
    by fastforce
  then show "\<exists>buf k1 p k2.
       k_querybuf sim_kernel k_i 3
         (zero_buffer\<lparr>buf_index := of_nat i, buf_type := V4L2_BUF_TYPE_VIDEO_CAPTURE\<rparr>)
         = (0, buf, k1)
     \<and> k_mmap sim_kernel k1 (buf_length buf) 3 3 (m_offset buf) = (p, k2)
     \<and> p \<noteq> MAP_FAILED"
  proof cases
    case 1
    with pre have "k_i = sim2"
      by (simp add: mmap_loop_done)
    with 1 show ?thesis
      by (simp add: sim_defs)
  next
    case 2
    with pre have "k_i = sim2\<lparr>sim_room := 3, sim_maps := [(0x7F0000000000, 4096)]\<rparr>"
      by (auto simp: mmap_loop_unroll mmap_loop_done sim_defs)
    with 2 show ?thesis
      by (simp add: sim_defs)
  qed
qed

lemma sim_serves_export:
  "every_export_succeeds sim_kernel sim2 3 V4L2_BUF_TYPE_VIDEO_CAPTURE 2 Map.empty"
  unfolding every_export_succeeds_def
proof (intro allI impI)
  fix i fds_i k_i
  assume i: "i < unat (2::u32)"
    and pre: "export_loop sim_kernel 3 V4L2_BUF_TYPE_VIDEO_CAPTURE i 0 Map.empty sim2
                = (Inr fds_i, k_i)"
  from i consider "i = 0" | "i = 1"
    by fastforce
  then show "\<exists>ebuf k1.
       k_expbuf sim_kernel k_i 3
         (zero_exportbuffer\<lparr>exp_index := of_nat i, exp_type := V4L2_BUF_TYPE_VIDEO_CAPTURE\<rparr>)
         = (0, ebuf, k1)"
  proof cases
    case 1
    with pre have "k_i = sim2"
      by (simp add: export_loop_done)
    with 1 show ?thesis
      by (simp add: sim_defs)
  next
    case 2
    with pre have "k_i = sim2"
      by (auto simp: export_loop_unroll export_loop_done sim_defs)
    with 2 show ?thesis
      by (simp add: sim_defs)
  qed
qed

theorem pool_entries_witness:
  "unat (2::u32) < 2 ^ 31
   \<and> every_mapping_succeeds sim_kernel sim2 3 V4L2_BUF_TYPE_VIDEO_CAPTURE 2 Map.empty 3
   \<and> mmap_refuses_zero_length sim_kernel
   \<and> v4l2_buffers_mmap sim_kernel sim2 3 V4L2_BUF_TYPE_VIDEO_CAPTURE 2 Map.empty 3
     = (Inr [0 \<mapsto> 0x7F0000000000, 1 \<mapsto> 0x7F0000001000],
        sim2\<lparr>sim_room := 2,
             sim_maps := [(0x7F0000000000, 4096), (0x7F0000001000, 4096)]\<rparr>)
   \<and> (\<exists>bufs_i k_i buf k1 p k2.
           mmap_loop sim_kernel 3 V4L2_BUF_TYPE_VIDEO_CAPTURE 3 1 0 Map.empty sim2
             = (Inr bufs_i, k_i)
         \<and> k_querybuf sim_kernel k_i 3
              (zero_buffer\<lparr>buf_index := of_nat 1, buf_type := V4L2_BUF_TYPE_VIDEO_CAPTURE\<rparr>)
             = (0, buf, k1)
         \<and> k_mmap sim_kernel k1 (buf_length buf) 3 3 (m_offset buf) = (p, k2)
         \<and> p \<noteq> MAP_FAILED
         \<and> [0 \<mapsto> 0x7F0000000000, 1 \<mapsto> 0x7F0000001000] (1::nat) = Some p
         \<and> buf_length buf \<noteq> 0)
   \<and> [0 \<mapsto> 0x7F0000000000, 1 \<mapsto> 0x7F0000001000] (2::nat) = (Map.empty 2 :: addr option)
   \<and> every_export_succeeds sim_kernel sim2 3 V4L2_BUF_TYPE_VIDEO_CAPTURE 2 Map.empty
   \<and> v4l2_buffers_export sim_kernel sim2 3 V4L2_BUF_TYPE_VIDEO_CAPTURE 2 Map.empty
     = (Inr [0 \<mapsto> 10, 1 \<mapsto> 11], sim2)
   \<and> (\<exists>fds_i k_i ebuf k1.
           export_loop sim_kernel 3 V4L2_BUF_TYPE_VIDEO_CAPTURE 1 0 Map.empty sim2
             = (Inr fds_i, k_i)
         \<and> k_expbuf sim_kernel k_i 3
              (zero_exportbuffer\<lparr>exp_index := of_nat 1,
                                  exp_type := V4L2_BUF_TYPE_VIDEO_CAPTURE\<rparr>)
             = (0, ebuf, k1)
         \<and> [0 \<mapsto> 10, 1 \<mapsto> 11] (1::nat) = Some (exp_fd ebuf))"
proof -
  note all = pool_entries [of 2 sim_kernel sim2 3 V4L2_BUF_TYPE_VIDEO_CAPTURE Map.empty 3
      "[0 \<mapsto> 0x7F0000000000, 1 \<mapsto> 0x7F0000001000]"
      "sim2\<lparr>sim_room := 2,
            sim_maps := [(0x7F0000000000, 4096), (0x7F0000001000, 4096)]\<rparr>"
      Map.empty "[0 \<mapsto> 10, 1 \<mapsto> 11]" sim2]
  have small: "unat (2::u32) < 2 ^ 31"
    by simp
  have one: "(1::nat) < unat (2::u32)"
    by simp
  from all small sim_serves_mapping obtain array k_end where
    run: "v4l2_buffers_mmap sim_kernel sim2 3 V4L2_BUF_TYPE_VIDEO_CAPTURE 2 Map.empty 3
            = (Inr array, k_end)"
    and entries: "\<forall>i<unat (2::u32). \<exists>bufs_i k_i buf k1 p k2.
           mmap_loop sim_kernel 3 V4L2_BUF_TYPE_VIDEO_CAPTURE 3 i 0 Map.empty sim2
             = (Inr bufs_i, k_i)
         \<and> k_querybuf sim_kernel k_i 3
              (zero_buffer\<lparr>buf_index := of_nat i, buf_type := V4L2_BUF_TYPE_VIDEO_CAPTURE\<rparr>)
             = (0, buf, k1)
         \<and> k_mmap sim_kernel k1 (buf_length buf) 3 3 (m_offset buf) = (p, k2)
         \<and> p \<noteq> MAP_FAILED \<and> array i = Some p
         \<and> (mmap_refuses_zero_length sim_kernel \<longrightarrow> buf_length buf \<noteq> 0)"
    and rest: "\<forall>i\<ge>unat (2::u32). array i = Map.empty i"
    by blast
  from run sim_mmap_two have array: "array = [0 \<mapsto> 0x7F0000000000, 1 \<mapsto> 0x7F0000001000]"
    by simp
  from entries one sim_mmap_refuses_zero_length have mapped:
    "\<exists>bufs_i k_i buf k1 p k2.
           mmap_loop sim_kernel 3 V4L2_BUF_TYPE_VIDEO_CAPTURE 3 1 0 Map.empty sim2
             = (Inr bufs_i, k_i)
         \<and> k_querybuf sim_kernel k_i 3
              (zero_buffer\<lparr>buf_index := of_nat 1, buf_type := V4L2_BUF_TYPE_VIDEO_CAPTURE\<rparr>)
             = (0, buf, k1)
         \<and> k_mmap sim_kernel k1 (buf_length buf) 3 3 (m_offset buf) = (p, k2)
         \<and> p \<noteq> MAP_FAILED
         \<and> [0 \<mapsto> 0x7F0000000000, 1 \<mapsto> 0x7F0000001000] (1::nat) = Some p
         \<and> buf_length buf \<noteq> 0"
    unfolding array by blast
  from rest have beyond: "[0 \<mapsto> 0x7F0000000000, 1 \<mapsto> 0x7F0000001000] (2::nat)
      = (Map.empty 2 :: addr option)"
    unfolding array by simp
  from all small sim_serves_export obtain fds k_end' where
    run': "v4l2_buffers_export sim_kernel sim2 3 V4L2_BUF_TYPE_VIDEO_CAPTURE 2 Map.empty
            = (Inr fds, k_end')"
    and entries': "\<forall>i<unat (2::u32). \<exists>fds_i k_i ebuf k1.
           export_loop sim_kernel 3 V4L2_BUF_TYPE_VIDEO_CAPTURE i 0 Map.empty sim2
             = (Inr fds_i, k_i)
         \<and> k_expbuf sim_kernel k_i 3
              (zero_exportbuffer\<lparr>exp_index := of_nat i,
                                  exp_type := V4L2_BUF_TYPE_VIDEO_CAPTURE\<rparr>)
             = (0, ebuf, k1)
         \<and> fds i = Some (exp_fd ebuf)"
    by blast
  from run' sim_export_two have fds: "fds = [0 \<mapsto> 10, 1 \<mapsto> 11]"
    by simp
  from entries' one have exported:
    "\<exists>fds_i k_i ebuf k1.
           export_loop sim_kernel 3 V4L2_BUF_TYPE_VIDEO_CAPTURE 1 0 Map.empty sim2
             = (Inr fds_i, k_i)
         \<and> k_expbuf sim_kernel k_i 3
              (zero_exportbuffer\<lparr>exp_index := of_nat 1,
                                  exp_type := V4L2_BUF_TYPE_VIDEO_CAPTURE\<rparr>)
             = (0, ebuf, k1)
         \<and> [0 \<mapsto> 10, 1 \<mapsto> 11] (1::nat) = Some (exp_fd ebuf)"
    unfolding fds by blast
  from small sim_serves_mapping sim_mmap_refuses_zero_length sim_mmap_two mapped beyond
    sim_serves_export sim_export_two exported
  show ?thesis
    by (intro conjI)
qed

section \<open>Failed calls\<close>

lemma watched_calls:
  "k_open (watched K) (k, f) device =
     (case k_open K k device of (fd, k') \<Rightarrow> (fd, (k', f \<or> fd < 0)))"
  "k_fstat (watched K) (k, f) fd =
     (case k_fstat K k fd of (r, m, k') \<Rightarrow> (r, m, (k', f \<or> r = - 1)))"
  "k_querycap (watched K) (k, f) fd =
     (case k_querycap K k fd of (rc, c, k') \<Rightarrow> (rc, c, (k', f \<or> rc \<noteq> 0)))"
  "k_s_fmt (watched K) (k, f) fd fmt =
     (case k_s_fmt K k fd fmt of (rc, fmt', k') \<Rightarrow> (rc, fmt', (k', f \<or> rc \<noteq> 0)))"
  "k_g_parm (watched K) (k, f) fd parm =
     (case k_g_parm K k fd parm of (rc, parm', k') \<Rightarrow> (rc, parm', (k', f \<or> rc \<noteq> 0)))"
  "k_s_parm (watched K) (k, f) fd parm =
     (case k_s_parm K k fd parm of (rc, parm', k') \<Rightarrow> (rc, parm', (k', f \<or> rc \<noteq> 0)))"
  "k_reqbufs (watched K) (k, f) fd req =
     (case k_reqbufs K k fd req of (rc, req', k') \<Rightarrow> (rc, req', (k', f \<or> rc \<noteq> 0)))"
  "k_querybuf (watched K) (k, f) fd buf =
     (case k_querybuf K k fd buf of (rc, buf', k') \<Rightarrow> (rc, buf', (k', f \<or> rc \<noteq> 0)))"
  "k_mmap (watched K) (k, f) len prot fd offset =
     (case k_mmap K k len prot fd offset of (p, k') \<Rightarrow> (p, (k', f \<or> p = MAP_FAILED)))"
  "k_expbuf (watched K) (k, f) fd ebuf =
     (case k_expbuf K k fd ebuf of (rc, ebuf', k') \<Rightarrow> (rc, ebuf', (k', f \<or> rc \<noteq> 0)))"
  "k_dqbuf (watched K) (k, f) fd buf =
     (case k_dqbuf K k fd buf of (rc, buf', k') \<Rightarrow> (rc, buf', (k', f \<or> rc \<noteq> 0)))"
  "k_qbuf (watched K) (k, f) fd buf =
     (case k_qbuf K k fd buf of (rc, buf', k') \<Rightarrow> (rc, buf', (k', f \<or> rc \<noteq> 0)))"
  "k_streamon (watched K) (k, f) fd type =
     (case k_streamon K k fd type of (rc, k') \<Rightarrow> (rc, (k', f \<or> rc \<noteq> 0)))"
  by (simp_all add: watched_def)

text \<open>
  A loop on a watched kernel that starts with the flag down and ends with the flag up
  has failed.
\<close>

lemma watched_mmap_loop:
  "mmap_loop K' fd type prot num i bufs s = (r, s') \<Longrightarrow> K' = watched K \<Longrightarrow> \<not> snd s
     \<Longrightarrow> snd s' \<Longrightarrow> isl r"
proof (induction K' fd type prot num i bufs s rule: mmap_loop.induct)
  case (1 K' fd type prot num i bufs s)
  show ?case
  proof (cases "i < num")
    case False
    with "1.prems" show ?thesis by (simp add: mmap_loop_done)
  next
    case True
    obtain rc buf k1 where
      q: "k_querybuf K' s fd (zero_buffer\<lparr>buf_index := of_nat i, buf_type := type\<rparr>)
            = (rc, buf, k1)"
      by (metis prod_cases3)
    obtain p k2 where m: "k_mmap K' k1 (buf_length buf) prot fd (m_offset buf) = (p, k2)"
      by (metis surj_pair)
    from q "1.prems"(2,3) have f1: "snd k1 = (rc \<noteq> 0)"
      by (cases s) (auto simp: watched_calls split: prod.splits)
    from m "1.prems"(2) have f2: "snd k2 = (snd k1 \<or> p = MAP_FAILED)"
      by (cases k1) (auto simp: watched_calls split: prod.splits)
    show ?thesis
    proof (cases "rc = 0 \<and> p \<noteq> MAP_FAILED \<and> i \<noteq> INT_MAX")
      case False
      with "1.prems"(1) mmap_loop_step [OF True q m, of bufs] show ?thesis
        by (auto split: if_splits)
    next
      case ok: True
      then have nz: "\<not> rc \<noteq> 0" and pm: "p \<noteq> MAP_FAILED" and im: "i \<noteq> INT_MAX"
        by simp_all
      from "1.prems"(1) mmap_loop_step [OF True q m, of bufs] ok
      have rest: "mmap_loop K' fd type prot num (Suc i) (bufs(i \<mapsto> p)) k2 = (r, s')"
        by simp
      from f1 f2 ok have clean: "\<not> snd k2" by simp
      show ?thesis
        by (rule "1.IH" [OF True q [symmetric] refl nz m [symmetric] pm im rest "1.prems"(2) clean
              "1.prems"(4)])
    qed
  qed
qed

lemma watched_export_loop:
  "export_loop K' fd type num i bufs s = (r, s') \<Longrightarrow> K' = watched K \<Longrightarrow> \<not> snd s
     \<Longrightarrow> snd s' \<Longrightarrow> isl r"
proof (induction K' fd type num i bufs s rule: export_loop.induct)
  case (1 K' fd type num i bufs s)
  show ?case
  proof (cases "i < num")
    case False
    with "1.prems" show ?thesis by (simp add: export_loop_done)
  next
    case True
    obtain rc ebuf k1 where
      q: "k_expbuf K' s fd (zero_exportbuffer\<lparr>exp_index := of_nat i, exp_type := type\<rparr>)
            = (rc, ebuf, k1)"
      by (metis prod_cases3)
    from q "1.prems"(2,3) have f1: "snd k1 = (rc \<noteq> 0)"
      by (cases s) (auto simp: watched_calls split: prod.splits)
    show ?thesis
    proof (cases "rc = 0 \<and> i \<noteq> INT_MAX")
      case False
      with "1.prems"(1) export_loop_step [OF True q, of bufs] show ?thesis
        by (auto split: if_splits)
    next
      case ok: True
      then have nz: "\<not> rc \<noteq> 0" and im: "i \<noteq> INT_MAX"
        by simp_all
      from "1.prems"(1) export_loop_step [OF True q, of bufs] ok
      have rest: "export_loop K' fd type num (Suc i) (bufs(i \<mapsto> exp_fd ebuf)) k1 = (r, s')"
        by simp
      from f1 ok have clean: "\<not> snd k1" by simp
      show ?thesis
        by (rule "1.IH" [OF True q [symmetric] refl nz im rest "1.prems"(2) clean "1.prems"(4)])
    qed
  qed
qed

text \<open>Watching changes no result.\<close>

lemma watched_mmap_loop_same:
  "fst (mmap_loop (watched K) fd type prot num i bufs (k, f)) =
   fst (mmap_loop K fd type prot num i bufs k)"
proof (induction K fd type prot num i bufs k arbitrary: f rule: mmap_loop.induct)
  case (1 K fd type prot num i bufs k)
  show ?case
  proof (cases "i < num")
    case False
    then show ?thesis by (simp add: mmap_loop_done)
  next
    case True
    obtain rc buf k1 where
      q: "k_querybuf K k fd (zero_buffer\<lparr>buf_index := of_nat i, buf_type := type\<rparr>)
            = (rc, buf, k1)"
      by (metis prod_cases3)
    obtain p k2 where m: "k_mmap K k1 (buf_length buf) prot fd (m_offset buf) = (p, k2)"
      by (metis surj_pair)
    have q': "k_querybuf (watched K) (k, f) fd
          (zero_buffer\<lparr>buf_index := of_nat i, buf_type := type\<rparr>)
        = (rc, buf, (k1, f \<or> rc \<noteq> 0))"
      by (simp add: watched_calls q)
    have m': "k_mmap (watched K) (k1, f \<or> rc \<noteq> 0) (buf_length buf) prot fd (m_offset buf)
        = (p, (k2, (f \<or> rc \<noteq> 0) \<or> p = MAP_FAILED))"
      by (simp add: watched_calls m)
    show ?thesis
    proof (cases "rc = 0 \<and> p \<noteq> MAP_FAILED \<and> i \<noteq> INT_MAX")
      case False
      then show ?thesis
        by (auto simp: mmap_loop_step [OF True q m] mmap_loop_step [OF True q' m'])
    next
      case ok: True
      then have nz: "\<not> rc \<noteq> 0" and pm: "p \<noteq> MAP_FAILED" and im: "i \<noteq> INT_MAX"
        by simp_all
      have "fst (mmap_loop (watched K) fd type prot num (Suc i) (bufs(i \<mapsto> p))
                  (k2, (f \<or> rc \<noteq> 0) \<or> p = MAP_FAILED)) =
            fst (mmap_loop K fd type prot num (Suc i) (bufs(i \<mapsto> p)) k2)"
        by (rule "1.IH" [OF True q [symmetric] refl nz m [symmetric] pm im])
      with ok show ?thesis
        by (simp add: mmap_loop_step [OF True q m] mmap_loop_step [OF True q' m'])
    qed
  qed
qed

lemma watched_export_loop_same:
  "fst (export_loop (watched K) fd type num i bufs (k, f)) =
   fst (export_loop K fd type num i bufs k)"
proof (induction K fd type num i bufs k arbitrary: f rule: export_loop.induct)
  case (1 K fd type num i bufs k)
  show ?case
  proof (cases "i < num")
    case False
    then show ?thesis by (simp add: export_loop_done)
  next
    case True
    obtain rc ebuf k1 where
      q: "k_expbuf K k fd (zero_exportbuffer\<lparr>exp_index := of_nat i, exp_type := type\<rparr>)
            = (rc, ebuf, k1)"
      by (metis prod_cases3)
    have q': "k_expbuf (watched K) (k, f) fd
          (zero_exportbuffer\<lparr>exp_index := of_nat i, exp_type := type\<rparr>)
        = (rc, ebuf, (k1, f \<or> rc \<noteq> 0))"
      by (simp add: watched_calls q)
    show ?thesis
    proof (cases "rc = 0 \<and> i \<noteq> INT_MAX")
      case False
      then show ?thesis
        by (auto simp: export_loop_step [OF True q] export_loop_step [OF True q'])
    next
      case ok: True
      then have nz: "\<not> rc \<noteq> 0" and im: "i \<noteq> INT_MAX"
        by simp_all
      have "fst (export_loop (watched K) fd type num (Suc i) (bufs(i \<mapsto> exp_fd ebuf))
                  (k1, f \<or> rc \<noteq> 0)) =
            fst (export_loop K fd type num (Suc i) (bufs(i \<mapsto> exp_fd ebuf)) k1)"
        by (rule "1.IH" [OF True q [symmetric] refl nz im])
      with ok show ?thesis
        by (simp add: export_loop_step [OF True q] export_loop_step [OF True q'])
    qed
  qed
qed

lemma watched_same:
  "fst (v4l2_open (watched K) (k, f) device positive negative want_card) =
   fst (v4l2_open K k device positive negative want_card)"
  "fst (v4l2_configure (watched K) (k, f) fd type pixelformat width height) =
   fst (v4l2_configure K k fd type pixelformat width height)"
  "fst (v4l2_framerate_configure (watched K) (k, f) fd type framerate) =
   fst (v4l2_framerate_configure K k fd type framerate)"
  "fst (v4l2_framerate_get (watched K) (k, f) fd type) = fst (v4l2_framerate_get K k fd type)"
  "fst (v4l2_buffers_request (watched K) (k, f) fd type num memory) =
   fst (v4l2_buffers_request K k fd type num memory)"
  "fst (v4l2_buffers_mmap (watched K) (k, f) fd type num bufs prot) =
   fst (v4l2_buffers_mmap K k fd type num bufs prot)"
  "fst (v4l2_buffers_export (watched K) (k, f) fd type num fds) =
   fst (v4l2_buffers_export K k fd type num fds)"
  "fst (v4l2_dqbuf (watched K) (k, f) fd buf) = fst (v4l2_dqbuf K k fd buf)"
  "fst (v4l2_qbuf (watched K) (k, f) fd buf) = fst (v4l2_qbuf K k fd buf)"
  "fst (v4l2_streamon (watched K) (k, f) fd type) = fst (v4l2_streamon K k fd type)"
proof -
  show "fst (v4l2_open (watched K) (k, f) device positive negative want_card) =
        fst (v4l2_open K k device positive negative want_card)"
  proof -
    obtain fd k1 where a: "k_open K k device = (fd, k1)"
      by (metis surj_pair)
    obtain r m k2 where b: "k_fstat K k1 fd = (r, m, k2)"
      by (metis prod_cases3)
    obtain ret cap k3 where c: "k_querycap K k2 fd = (ret, cap, k3)"
      by (metis prod_cases3)
    show ?thesis
      by (simp add: v4l2_open_def watched_calls a b c)
  qed
  show "fst (v4l2_configure (watched K) (k, f) fd type pixelformat width height) =
        fst (v4l2_configure K k fd type pixelformat width height)"
    by (simp add: v4l2_configure_def watched_calls split: prod.split)
  show "fst (v4l2_framerate_configure (watched K) (k, f) fd type framerate) =
        fst (v4l2_framerate_configure K k fd type framerate)"
  proof -
    obtain rc parm k1 where a: "k_g_parm K k fd
        \<lparr>parm_type = type, parm_capability = 0, timeperframe_numerator = 0,
         timeperframe_denominator = 0\<rparr> = (rc, parm, k1)"
      by (metis prod_cases3)
    obtain rc2 parm2 k2 where b: "k_s_parm K k1 fd
        (parm\<lparr>timeperframe_numerator := 1, timeperframe_denominator := framerate\<rparr>)
        = (rc2, parm2, k2)"
      by (metis prod_cases3)
    obtain rc3 parm3 k3 where c: "k_s_parm K k1 fd parm = (rc3, parm3, k3)"
      by (metis prod_cases3)
    show ?thesis
      by (simp add: v4l2_framerate_configure_def watched_calls a b c)
  qed
  show "fst (v4l2_framerate_get (watched K) (k, f) fd type) = fst (v4l2_framerate_get K k fd type)"
    by (simp add: v4l2_framerate_get_def watched_calls split: prod.split)
  show "fst (v4l2_buffers_request (watched K) (k, f) fd type num memory) =
        fst (v4l2_buffers_request K k fd type num memory)"
    by (simp add: v4l2_buffers_request_def watched_calls split: prod.split)
  show "fst (v4l2_buffers_mmap (watched K) (k, f) fd type num bufs prot) =
        fst (v4l2_buffers_mmap K k fd type num bufs prot)"
    by (simp add: v4l2_buffers_mmap_def watched_mmap_loop_same)
  show "fst (v4l2_buffers_export (watched K) (k, f) fd type num fds) =
        fst (v4l2_buffers_export K k fd type num fds)"
    by (simp add: v4l2_buffers_export_def watched_export_loop_same)
  show "fst (v4l2_dqbuf (watched K) (k, f) fd buf) = fst (v4l2_dqbuf K k fd buf)"
    by (simp add: v4l2_dqbuf_def watched_calls split: prod.split)
  show "fst (v4l2_qbuf (watched K) (k, f) fd buf) = fst (v4l2_qbuf K k fd buf)"
    by (simp add: v4l2_qbuf_def watched_calls split: prod.split)
  show "fst (v4l2_streamon (watched K) (k, f) fd type) = fst (v4l2_streamon K k fd type)"
    by (simp add: v4l2_streamon_def watched_calls split: prod.split)
qed

text \<open>In every function but \<^verbatim>\<open>v4l2_framerate_get\<close>, a failed call ends the process.\<close>

lemma failed_open:
  "call_failed (v4l2_open (watched K) (k, False) device positive negative want_card)
   \<longrightarrow> isl (fst (v4l2_open (watched K) (k, False) device positive negative want_card))"
proof -
  obtain fd k1 where a: "k_open K k device = (fd, k1)"
    by (metis surj_pair)
  obtain r m k2 where b: "k_fstat K k1 fd = (r, m, k2)"
    by (metis prod_cases3)
  obtain ret cap k3 where c: "k_querycap K k2 fd = (ret, cap, k3)"
    by (metis prod_cases3)
  show ?thesis
    by (simp add: v4l2_open_def watched_calls call_failed_def a b c)
qed

lemma failed_configure:
  "call_failed (v4l2_configure (watched K) (k, False) fd type pixelformat width height)
   \<longrightarrow> isl (fst (v4l2_configure (watched K) (k, False) fd type pixelformat width height))"
proof -
  obtain rc fmt k1 where a: "k_s_fmt K k fd
      \<lparr>fmt_type = type, pix_width = width, pix_height = height,
       pix_pixelformat = pixelformat, pix_field = V4L2_FIELD_ANY\<rparr> = (rc, fmt, k1)"
    by (metis prod_cases3)
  show ?thesis
    by (simp add: v4l2_configure_def watched_calls call_failed_def a)
qed

lemma failed_framerate_configure:
  "call_failed (v4l2_framerate_configure (watched K) (k, False) fd type framerate)
   \<longrightarrow> isl (fst (v4l2_framerate_configure (watched K) (k, False) fd type framerate))"
proof -
  obtain rc parm k1 where a: "k_g_parm K k fd
      \<lparr>parm_type = type, parm_capability = 0, timeperframe_numerator = 0,
       timeperframe_denominator = 0\<rparr> = (rc, parm, k1)"
    by (metis prod_cases3)
  obtain rc2 parm2 k2 where b: "k_s_parm K k1 fd
      (if type = V4L2_BUF_TYPE_VIDEO_CAPTURE \<or> type = V4L2_BUF_TYPE_VIDEO_OUTPUT
       then parm\<lparr>timeperframe_numerator := 1, timeperframe_denominator := framerate\<rparr>
       else parm) = (rc2, parm2, k2)"
    by (metis prod_cases3)
  show ?thesis
    by (simp add: v4l2_framerate_configure_def watched_calls call_failed_def a b)
qed

lemma failed_buffers_request:
  "call_failed (v4l2_buffers_request (watched K) (k, False) fd type num memory)
   \<longrightarrow> isl (fst (v4l2_buffers_request (watched K) (k, False) fd type num memory))"
proof -
  obtain rc reqbuf k1 where a: "k_reqbufs K k fd
      \<lparr>req_count = num, req_type = type, req_memory = memory\<rparr> = (rc, reqbuf, k1)"
    by (metis prod_cases3)
  show ?thesis
    by (simp add: v4l2_buffers_request_def watched_calls call_failed_def a)
qed

lemma failed_buffers_mmap:
  "call_failed (v4l2_buffers_mmap (watched K) (k, False) fd type num bufs prot)
   \<longrightarrow> isl (fst (v4l2_buffers_mmap (watched K) (k, False) fd type num bufs prot))"
proof
  let ?r = "mmap_loop (watched K) fd type prot (unat num) 0 bufs (k, False)"
  assume "call_failed (v4l2_buffers_mmap (watched K) (k, False) fd type num bufs prot)"
  then have f: "snd (snd ?r)"
    by (simp add: call_failed_def v4l2_buffers_mmap_def)
  have "?r = (fst ?r, snd ?r)" by simp
  from watched_mmap_loop [OF this refl _ f] have "isl (fst ?r)" by simp
  then show "isl (fst (v4l2_buffers_mmap (watched K) (k, False) fd type num bufs prot))"
    by (simp add: v4l2_buffers_mmap_def)
qed

lemma failed_buffers_export:
  "call_failed (v4l2_buffers_export (watched K) (k, False) fd type num fds)
   \<longrightarrow> isl (fst (v4l2_buffers_export (watched K) (k, False) fd type num fds))"
proof
  let ?r = "export_loop (watched K) fd type (unat num) 0 fds (k, False)"
  assume "call_failed (v4l2_buffers_export (watched K) (k, False) fd type num fds)"
  then have f: "snd (snd ?r)"
    by (simp add: call_failed_def v4l2_buffers_export_def)
  have "?r = (fst ?r, snd ?r)" by simp
  from watched_export_loop [OF this refl _ f] have "isl (fst ?r)" by simp
  then show "isl (fst (v4l2_buffers_export (watched K) (k, False) fd type num fds))"
    by (simp add: v4l2_buffers_export_def)
qed

lemma failed_dqbuf:
  "call_failed (v4l2_dqbuf (watched K) (k, False) fd buf)
   \<longrightarrow> isl (fst (v4l2_dqbuf (watched K) (k, False) fd buf))"
proof -
  obtain rc buf' k1 where a: "k_dqbuf K k fd buf = (rc, buf', k1)"
    by (metis prod_cases3)
  show ?thesis
    by (simp add: v4l2_dqbuf_def watched_calls call_failed_def a)
qed

lemma failed_qbuf:
  "call_failed (v4l2_qbuf (watched K) (k, False) fd buf)
   \<longrightarrow> isl (fst (v4l2_qbuf (watched K) (k, False) fd buf))"
proof -
  obtain rc buf' k1 where a: "k_qbuf K k fd buf = (rc, buf', k1)"
    by (metis prod_cases3)
  show ?thesis
    by (simp add: v4l2_qbuf_def watched_calls call_failed_def a)
qed

lemma failed_streamon:
  "call_failed (v4l2_streamon (watched K) (k, False) fd type)
   \<longrightarrow> isl (fst (v4l2_streamon (watched K) (k, False) fd type))"
proof -
  obtain rc k1 where a: "k_streamon K k fd type = (rc, k1)"
    by (metis surj_pair)
  show ?thesis
    by (simp add: v4l2_streamon_def watched_calls call_failed_def a)
qed

lemma failed_framerate_get:
  "fst (v4l2_framerate_get (watched K) (k, False) fd type) =
     (if call_failed (v4l2_framerate_get (watched K) (k, False) fd type) then Inr NAN
      else Inr (Float_div
        (timeperframe_denominator (fst (snd (k_g_parm K k fd
           \<lparr>parm_type = type, parm_capability = 0, timeperframe_numerator = 0,
            timeperframe_denominator = 0\<rparr>))))
        (timeperframe_numerator (fst (snd (k_g_parm K k fd
           \<lparr>parm_type = type, parm_capability = 0, timeperframe_numerator = 0,
            timeperframe_denominator = 0\<rparr>))))))"
proof -
  obtain rc parm k1 where a: "k_g_parm K k fd
      \<lparr>parm_type = type, parm_capability = 0, timeperframe_numerator = 0,
       timeperframe_denominator = 0\<rparr> = (rc, parm, k1)"
    by (metis prod_cases3)
  show ?thesis
    by (simp add: v4l2_framerate_get_def watched_calls call_failed_def a)
qed

text \<open>
  C9. \<^verbatim>\<open>v4l2_framerate_get\<close> is the one function of the module that returns to its caller
  after a failed call: when the request for the streaming parameters fails it returns
  \<^verbatim>\<open>NAN\<close>, and when the request succeeds it returns the denominator of the time per
  frame divided by its numerator, read through the capture member of the union whatever
  buffer type was passed. In each of the other functions that call the kernel
  (\<^verbatim>\<open>v4l2_open\<close>, \<^verbatim>\<open>v4l2_configure\<close>, \<^verbatim>\<open>v4l2_framerate_configure\<close>,
  \<^verbatim>\<open>v4l2_buffers_request\<close>, \<^verbatim>\<open>v4l2_buffers_mmap\<close>, \<^verbatim>\<open>v4l2_buffers_export\<close>, \<^verbatim>\<open>v4l2_dqbuf\<close>,
  \<^verbatim>\<open>v4l2_qbuf\<close>, \<^verbatim>\<open>v4l2_streamon\<close>), a run in which any call has failed terminates the
  process. The failed calls of a run are read off the same run on the watched kernel.
  The functions left (the three name lookups and the two printing functions) make no
  call that can fail.
\<close>

theorem only_framerate_get_survives_failure:
  "(call_failed (v4l2_framerate_get (watched K) (k, False) fd type) \<longrightarrow>
      fst (v4l2_framerate_get K k fd type) = Inr NAN)
   \<and> (\<not> call_failed (v4l2_framerate_get (watched K) (k, False) fd type) \<longrightarrow>
      fst (v4l2_framerate_get K k fd type) =
        Inr (Float_div
          (timeperframe_denominator (fst (snd (k_g_parm K k fd
             \<lparr>parm_type = type, parm_capability = 0, timeperframe_numerator = 0,
              timeperframe_denominator = 0\<rparr>))))
          (timeperframe_numerator (fst (snd (k_g_parm K k fd
             \<lparr>parm_type = type, parm_capability = 0, timeperframe_numerator = 0,
              timeperframe_denominator = 0\<rparr>))))))
   \<and> (call_failed (v4l2_open (watched K) (k, False) device positive negative want_card) \<longrightarrow>
      isl (fst (v4l2_open K k device positive negative want_card)))
   \<and> (call_failed (v4l2_configure (watched K) (k, False) fd type pixelformat width height) \<longrightarrow>
      isl (fst (v4l2_configure K k fd type pixelformat width height)))
   \<and> (call_failed (v4l2_framerate_configure (watched K) (k, False) fd type framerate) \<longrightarrow>
      isl (fst (v4l2_framerate_configure K k fd type framerate)))
   \<and> (call_failed (v4l2_buffers_request (watched K) (k, False) fd type num memory) \<longrightarrow>
      isl (fst (v4l2_buffers_request K k fd type num memory)))
   \<and> (call_failed (v4l2_buffers_mmap (watched K) (k, False) fd type num bufs prot) \<longrightarrow>
      isl (fst (v4l2_buffers_mmap K k fd type num bufs prot)))
   \<and> (call_failed (v4l2_buffers_export (watched K) (k, False) fd type num fds) \<longrightarrow>
      isl (fst (v4l2_buffers_export K k fd type num fds)))
   \<and> (call_failed (v4l2_dqbuf (watched K) (k, False) fd buf) \<longrightarrow>
      isl (fst (v4l2_dqbuf K k fd buf)))
   \<and> (call_failed (v4l2_qbuf (watched K) (k, False) fd buf) \<longrightarrow>
      isl (fst (v4l2_qbuf K k fd buf)))
   \<and> (call_failed (v4l2_streamon (watched K) (k, False) fd type) \<longrightarrow>
      isl (fst (v4l2_streamon K k fd type)))"
  using failed_framerate_get [of K k fd type]
    failed_open [of K k device positive negative want_card]
    failed_configure [of K k fd type pixelformat width height]
    failed_framerate_configure [of K k fd type framerate]
    failed_buffers_request [of K k fd type num memory]
    failed_buffers_mmap [of K k fd type num bufs prot]
    failed_buffers_export [of K k fd type num fds]
    failed_dqbuf [of K k fd buf] failed_qbuf [of K k fd buf] failed_streamon [of K k fd type]
  by (simp only: watched_same) simp

theorem only_framerate_get_survives_failure_witness:
  "call_failed (v4l2_framerate_get (watched gone_kernel) ((), False) 3
      V4L2_BUF_TYPE_VIDEO_CAPTURE)
   \<and> fst (v4l2_framerate_get gone_kernel () 3 V4L2_BUF_TYPE_VIDEO_CAPTURE) = Inr NAN
   \<and> \<not> call_failed (v4l2_framerate_get (watched sim_kernel) (sim0, False) 3
      V4L2_BUF_TYPE_VIDEO_OUTPUT)
   \<and> fst (v4l2_framerate_get sim_kernel sim0 3 V4L2_BUF_TYPE_VIDEO_OUTPUT)
      = Inr (Float_div 30 1)
   \<and> call_failed (v4l2_open (watched gone_kernel) ((), False) ''/dev/video0'' 1 0 True)
   \<and> isl (fst (v4l2_open gone_kernel () ''/dev/video0'' 1 0 True))
   \<and> call_failed (v4l2_configure (watched gone_kernel) ((), False) 3
      V4L2_BUF_TYPE_VIDEO_CAPTURE 0x56595559 640 480)
   \<and> isl (fst (v4l2_configure gone_kernel () 3 V4L2_BUF_TYPE_VIDEO_CAPTURE 0x56595559 640 480))
   \<and> call_failed (v4l2_framerate_configure (watched gone_kernel) ((), False) 3
      V4L2_BUF_TYPE_VIDEO_CAPTURE 30)
   \<and> isl (fst (v4l2_framerate_configure gone_kernel () 3 V4L2_BUF_TYPE_VIDEO_CAPTURE 30))
   \<and> call_failed (v4l2_buffers_request (watched gone_kernel) ((), False) 3
      V4L2_BUF_TYPE_VIDEO_CAPTURE 2 V4L2_MEMORY_MMAP)
   \<and> isl (fst (v4l2_buffers_request gone_kernel () 3 V4L2_BUF_TYPE_VIDEO_CAPTURE 2
      V4L2_MEMORY_MMAP))
   \<and> call_failed (v4l2_buffers_mmap (watched gone_kernel) ((), False) 3
      V4L2_BUF_TYPE_VIDEO_CAPTURE 2 Map.empty 3)
   \<and> isl (fst (v4l2_buffers_mmap gone_kernel () 3 V4L2_BUF_TYPE_VIDEO_CAPTURE 2 Map.empty 3))
   \<and> call_failed (v4l2_buffers_export (watched gone_kernel) ((), False) 3
      V4L2_BUF_TYPE_VIDEO_CAPTURE 2 Map.empty)
   \<and> isl (fst (v4l2_buffers_export gone_kernel () 3 V4L2_BUF_TYPE_VIDEO_CAPTURE 2 Map.empty))
   \<and> call_failed (v4l2_dqbuf (watched gone_kernel) ((), False) 3 frame0)
   \<and> isl (fst (v4l2_dqbuf gone_kernel () 3 frame0))
   \<and> call_failed (v4l2_qbuf (watched gone_kernel) ((), False) 3 frame0)
   \<and> isl (fst (v4l2_qbuf gone_kernel () 3 frame0))
   \<and> call_failed (v4l2_streamon (watched gone_kernel) ((), False) 3
      V4L2_BUF_TYPE_VIDEO_CAPTURE)
   \<and> isl (fst (v4l2_streamon gone_kernel () 3 V4L2_BUF_TYPE_VIDEO_CAPTURE))"
proof -
  note gone = only_framerate_get_survives_failure
    [of gone_kernel "()" 3 V4L2_BUF_TYPE_VIDEO_CAPTURE "''/dev/video0''" 1 0 True
      "0x56595559" 640 480 30 2 V4L2_MEMORY_MMAP Map.empty 3 Map.empty frame0]
  note alive = only_framerate_get_survives_failure
    [of sim_kernel sim0 3 V4L2_BUF_TYPE_VIDEO_OUTPUT "''/dev/video0''" 1 0 True
      "0x56595559" 640 480 30 2 V4L2_MEMORY_MMAP Map.empty 3 Map.empty frame0]
  have f1: "call_failed (v4l2_framerate_get (watched gone_kernel) ((), False) 3
      V4L2_BUF_TYPE_VIDEO_CAPTURE)"
    by (simp add: v4l2_framerate_get_def watched_calls call_failed_def gone_kernel_def)
  have f2: "\<not> call_failed (v4l2_framerate_get (watched sim_kernel) (sim0, False) 3
      V4L2_BUF_TYPE_VIDEO_OUTPUT)"
    by (simp add: v4l2_framerate_get_def watched_calls call_failed_def sim_defs)
  have f3: "call_failed (v4l2_open (watched gone_kernel) ((), False) ''/dev/video0'' 1 0 True)"
    by (simp add: v4l2_open_def watched_calls call_failed_def gone_kernel_def)
  have f4: "call_failed (v4l2_configure (watched gone_kernel) ((), False) 3
      V4L2_BUF_TYPE_VIDEO_CAPTURE 0x56595559 640 480)"
    by (simp add: v4l2_configure_def watched_calls call_failed_def gone_kernel_def)
  have f5: "call_failed (v4l2_framerate_configure (watched gone_kernel) ((), False) 3
      V4L2_BUF_TYPE_VIDEO_CAPTURE 30)"
    by (simp add: v4l2_framerate_configure_def watched_calls call_failed_def gone_kernel_def)
  have f6: "call_failed (v4l2_buffers_request (watched gone_kernel) ((), False) 3
      V4L2_BUF_TYPE_VIDEO_CAPTURE 2 V4L2_MEMORY_MMAP)"
    by (simp add: v4l2_buffers_request_def watched_calls call_failed_def gone_kernel_def)
  have f7: "call_failed (v4l2_buffers_mmap (watched gone_kernel) ((), False) 3
      V4L2_BUF_TYPE_VIDEO_CAPTURE 2 Map.empty 3)"
    by (simp add: v4l2_buffers_mmap_def mmap_loop_unroll watched_calls call_failed_def
        gone_kernel_def)
  have f8: "call_failed (v4l2_buffers_export (watched gone_kernel) ((), False) 3
      V4L2_BUF_TYPE_VIDEO_CAPTURE 2 Map.empty)"
    by (simp add: v4l2_buffers_export_def export_loop_unroll watched_calls call_failed_def
        gone_kernel_def)
  have f9: "call_failed (v4l2_dqbuf (watched gone_kernel) ((), False) 3 frame0)"
    by (simp add: v4l2_dqbuf_def watched_calls call_failed_def gone_kernel_def)
  have f10: "call_failed (v4l2_qbuf (watched gone_kernel) ((), False) 3 frame0)"
    by (simp add: v4l2_qbuf_def watched_calls call_failed_def gone_kernel_def)
  have f11: "call_failed (v4l2_streamon (watched gone_kernel) ((), False) 3
      V4L2_BUF_TYPE_VIDEO_CAPTURE)"
    by (simp add: v4l2_streamon_def watched_calls call_failed_def gone_kernel_def)
  have rate: "k_g_parm sim_kernel sim0 3
      \<lparr>parm_type = V4L2_BUF_TYPE_VIDEO_OUTPUT, parm_capability = 0,
       timeperframe_numerator = 0, timeperframe_denominator = 0\<rparr>
    = (0, \<lparr>parm_type = V4L2_BUF_TYPE_VIDEO_OUTPUT, parm_capability = V4L2_CAP_TIMEPERFRAME,
           timeperframe_numerator = 1, timeperframe_denominator = 30\<rparr>, sim0)"
    by (simp add: sim_defs)
  from alive f2 rate
  have g2: "fst (v4l2_framerate_get sim_kernel sim0 3 V4L2_BUF_TYPE_VIDEO_OUTPUT)
      = Inr (Float_div 30 1)"
    by simp
  from gone f1 f3 f4 f5 f6 f7 f8 f9 f10 f11 f2 g2 show ?thesis
    by blast
qed

end
